theory Spec2Isabelle
  imports Main "HOL-Library.Sublist"
begin

section \<open>Go strings\<close>

text \<open>
  A Go \<^verbatim>\<open>string\<close> is a sequence of bytes, and so is a HOL \<^typ>\<open>string\<close>; \<^verbatim>\<open>len\<close> is
  \<^const>\<open>length\<close> and \<^verbatim>\<open>s[:k]\<close> is \<^term>\<open>take k s\<close>.  The functions of package
  \<^verbatim>\<open>strings\<close> that the program calls are written out here.
\<close>

definition tab :: string where
  "tab = [CHR 0x09]"

definition nl :: string where
  "nl = [CHR 0x0A]"

definition squote :: string where
  "squote = [CHR 0x27]"

definition dquote :: string where
  "dquote = [CHR 0x22]"

definition backslash :: string where
  "backslash = [CHR 0x5C]"

definition backtick :: string where
  "backtick = [CHR 0x60]"

text \<open>\<^verbatim>\<open>utf8.RuneSelf\<close> and \<^verbatim>\<open>utf8.RuneError\<close>; a rune is a \<^typ>\<open>nat\<close>, a byte is read
  by \<open>byte\<close>.\<close>

definition RuneSelf :: nat where
  "RuneSelf = 0x80"

definition RuneError :: nat where
  "RuneError = 0xFFFD"

definition byte :: "char \<Rightarrow> nat" where
  "byte c = of_char c"

text \<open>The table \<^verbatim>\<open>first\<close> of package \<^verbatim>\<open>utf8\<close>: \<^verbatim>\<open>0xF0\<close> for ASCII, \<^verbatim>\<open>0xF1\<close> for a byte
  that starts no rune, else the size in the low three bits and the index of the accept
  range in the high four; and the table \<^verbatim>\<open>acceptRanges\<close>.\<close>

definition first :: "nat \<Rightarrow> nat" where
  "first b =
     (if b < 0x80 then 0xF0
      else if b < 0xC2 then 0xF1
      else if b < 0xE0 then 0x02
      else if b = 0xE0 then 0x13
      else if b < 0xED then 0x03
      else if b = 0xED then 0x23
      else if b < 0xF0 then 0x03
      else if b = 0xF0 then 0x34
      else if b < 0xF4 then 0x04
      else if b = 0xF4 then 0x44
      else 0xF1)"

definition acceptRanges :: "nat \<Rightarrow> nat \<times> nat" where
  "acceptRanges i =
     (if i = 1 then (0xA0, 0xBF)
      else if i = 2 then (0x80, 0x9F)
      else if i = 3 then (0x90, 0xBF)
      else if i = 4 then (0x80, 0x8F)
      else (0x80, 0xBF))"

text \<open>\<^verbatim>\<open>utf8.DecodeRuneInString\<close>: the rune at the head of \<open>s\<close> and its width; an invalid
  encoding is \<^verbatim>\<open>RuneError\<close> of width 1.  The masks and shifts are written as \<open>mod\<close> and
  products.\<close>

definition DecodeRuneInString :: "string \<Rightarrow> nat \<times> nat" where
  "DecodeRuneInString s =
     (case s of
        [] \<Rightarrow> (RuneError, 0)
      | c0 # _ \<Rightarrow>
          (let s0 = byte c0; x = first s0 in
           if x \<ge> 0xF0 then ((if x = 0xF0 then s0 else RuneError), 1)
           else
             (let sz = x mod 8; accept = acceptRanges (x div 16) in
              if length s < sz then (RuneError, 1)
              else
                (let s1 = byte (s ! 1) in
                 if s1 < fst accept \<or> snd accept < s1 then (RuneError, 1)
                 else if sz \<le> 2 then ((s0 mod 32) * 64 + s1 mod 64, 2)
                 else
                   (let s2 = byte (s ! 2) in
                    if s2 < 0x80 \<or> 0xBF < s2 then (RuneError, 1)
                    else if sz \<le> 3
                      then ((s0 mod 16) * 4096 + (s1 mod 64) * 64 + s2 mod 64, 3)
                    else
                      (let s3 = byte (s ! 3) in
                       if s3 < 0x80 \<or> 0xBF < s3 then (RuneError, 1)
                       else ((s0 mod 8) * 262144 + (s1 mod 64) * 4096
                             + (s2 mod 64) * 64 + s3 mod 64, 4)))))))"

text \<open>\<^verbatim>\<open>utf8.RuneStart\<close>: \<^verbatim>\<open>b&0xC0 != 0x80\<close>.\<close>

definition RuneStart :: "char \<Rightarrow> bool" where
  "RuneStart c \<longleftrightarrow> \<not> (0x80 \<le> byte c \<and> byte c < 0xC0)"

text \<open>The loop of \<^verbatim>\<open>DecodeLastRuneInString\<close> that walks back from \<^verbatim>\<open>end - 2\<close> to
  \<^verbatim>\<open>lim\<close> for a byte that starts a rune; without one, \<^verbatim>\<open>start\<close> is \<^verbatim>\<open>lim - 1\<close>, or 0 when
  that is negative.\<close>

definition last_rune_start :: "string \<Rightarrow> nat" where
  "last_rune_start s =
     (let n = length s; lim = n - 4 in
      case find (\<lambda>i. RuneStart (s ! i)) (rev [lim..<n - 1]) of
        Some i \<Rightarrow> i
      | None \<Rightarrow> lim - 1)"

text \<open>\<^verbatim>\<open>utf8.DecodeLastRuneInString\<close>.\<close>

definition DecodeLastRuneInString :: "string \<Rightarrow> nat \<times> nat" where
  "DecodeLastRuneInString s =
     (let n = length s in
      if n = 0 then (RuneError, 0)
      else if byte (s ! (n - 1)) < RuneSelf then (byte (s ! (n - 1)), 1)
      else
        (let start = last_rune_start s in
         case DecodeRuneInString (drop start s) of
           (r, wid) \<Rightarrow> if start + wid \<noteq> n then (RuneError, 1) else (r, wid)))"

text \<open>\<^verbatim>\<open>unicode.IsSpace\<close>: the Latin-1 spaces, and beyond them the ranges of the table
  \<^verbatim>\<open>White_Space\<close>.\<close>

definition IsSpace :: "nat \<Rightarrow> bool" where
  "IsSpace r \<longleftrightarrow>
     (if r \<le> 0xFF then r \<in> {0x09, 0x0A, 0x0B, 0x0C, 0x0D, 0x20, 0x85, 0xA0}
      else r = 0x1680 \<or> (0x2000 \<le> r \<and> r \<le> 0x200A) \<or> r = 0x2028 \<or> r = 0x2029
           \<or> r = 0x202F \<or> r = 0x205F \<or> r = 0x3000)"

text \<open>\<^verbatim>\<open>strings.TrimLeftFunc(s, unicode.IsSpace)\<close>: \<open>s\<close> from its first rune that is no
  space.\<close>

function TrimLeftFunc :: "string \<Rightarrow> string" where
  "TrimLeftFunc s =
     (if s = [] then []
      else (case DecodeRuneInString s of
              (r, wid) \<Rightarrow> if IsSpace r then TrimLeftFunc (drop wid s) else s))"
  by pat_completeness auto
termination
proof (relation "measure length")
  show "wf (measure length)" by simp
next
  fix s :: string and x y
  assume ne: "s \<noteq> []" and d: "(x, y) = DecodeRuneInString s"
  have "0 < snd (DecodeRuneInString s)"
    using ne by (cases s) (simp_all add: DecodeRuneInString_def Let_def)
  then have "0 < y"
    using d by (metis snd_conv)
  then show "(drop y s, s) \<in> measure length"
    using ne by simp
qed

text \<open>\<^verbatim>\<open>lastIndexFunc(s, unicode.IsSpace, false)\<close>: the index of the last rune that is no
  space, \<open>None\<close> for \<^verbatim>\<open>-1\<close>.\<close>

function lastIndexNotSpace :: "string \<Rightarrow> nat option" where
  "lastIndexNotSpace s =
     (if s = [] then None
      else (case DecodeLastRuneInString s of
              (r, wid) \<Rightarrow>
                if \<not> IsSpace r then Some (length s - wid)
                else lastIndexNotSpace (take (length s - wid) s)))"
  by pat_completeness auto
termination
proof (relation "measure length")
  show "wf (measure length)" by simp
next
  fix s :: string and x y
  assume ne: "s \<noteq> []" and d: "(x, y) = DecodeLastRuneInString s" and sp: "\<not> \<not> IsSpace x"
  have st: "last_rune_start s < length s"
  proof (cases "find (\<lambda>i. RuneStart (s ! i)) (rev [length s - 4..<length s - 1])")
    case None
    then show ?thesis
      using ne by (simp add: last_rune_start_def Let_def)
  next
    case (Some i)
    then have "i \<in> set (rev [length s - 4..<length s - 1])"
      by (metis find_Some_iff nth_mem)
    then have "i < length s"
      by auto
    then show ?thesis
      using Some by (simp add: last_rune_start_def Let_def)
  qed
  have "\<not> IsSpace RuneError"
    by (simp add: IsSpace_def RuneError_def)
  then have "x \<noteq> RuneError"
    using sp by auto
  then have "0 < y"
    using d ne st
    by (auto simp: DecodeLastRuneInString_def Let_def split: if_splits prod.splits)
  then show "(take (length s - y) s, s) \<in> measure length"
    using ne by simp
qed

text \<open>\<^verbatim>\<open>strings.TrimRightFunc(s, unicode.IsSpace)\<close>.\<close>

definition TrimRightFunc :: "string \<Rightarrow> string" where
  "TrimRightFunc s =
     (case lastIndexNotSpace s of
        None \<Rightarrow> take 0 s
      | Some i \<Rightarrow>
          if byte (s ! i) \<ge> RuneSelf then take (i + snd (DecodeRuneInString (drop i s))) s
          else take (i + 1) s)"

text \<open>The table \<^verbatim>\<open>asciiSpace\<close> of package \<^verbatim>\<open>strings\<close>.\<close>

definition asciiSpace :: "char \<Rightarrow> bool" where
  "asciiSpace c \<longleftrightarrow> c \<in> {CHR 0x09, CHR 0x0A, CHR 0x0B, CHR 0x0C, CHR 0x0D, CHR 0x20}"

text \<open>\<^verbatim>\<open>strings.TrimSpace\<close>: the ASCII spaces are skipped from the start, then from the
  end (\<open>TrimSpace_stop\<close>, on the reversed rest); at the first byte from
  \<^verbatim>\<open>utf8.RuneSelf\<close> on, the rest is trimmed rune by rune.\<close>

fun TrimSpace_stop :: "string \<Rightarrow> string" where
  "TrimSpace_stop [] = []"
| "TrimSpace_stop (c # cs) =
     (if byte c \<ge> RuneSelf then TrimRightFunc (rev (c # cs))
      else if \<not> asciiSpace c then rev (c # cs)
      else TrimSpace_stop cs)"

fun TrimSpace :: "string \<Rightarrow> string" where
  "TrimSpace [] = []"
| "TrimSpace (c # cs) =
     (if byte c \<ge> RuneSelf then TrimRightFunc (TrimLeftFunc (c # cs))
      else if \<not> asciiSpace c then TrimSpace_stop (rev (c # cs))
      else TrimSpace cs)"

text \<open>\<^verbatim>\<open>strings.HasSuffix(s, suffix)\<close>:
  \<^verbatim>\<open>len(s) >= len(suffix) && s[len(s)-len(suffix):] == suffix\<close>.\<close>

definition HasSuffix :: "string \<Rightarrow> string \<Rightarrow> bool" where
  "HasSuffix s suf \<longleftrightarrow> length suf \<le> length s \<and> drop (length s - length suf) s = suf"

text \<open>\<^verbatim>\<open>strings.Split(s, "\n")\<close>: the pieces between the newlines, one piece for a string
  without a newline (also for the empty string).\<close>

fun Split_nl :: "string \<Rightarrow> string list" where
  "Split_nl [] = [[]]"
| "Split_nl (c # cs) =
     (if c = CHR 0x0A then [] # Split_nl cs
      else (case Split_nl cs of l # ls \<Rightarrow> (c # l) # ls | [] \<Rightarrow> [[c]]))"

text \<open>\<^verbatim>\<open>strings.ReplaceAll(block, "'", "'\\''")\<close>: every single quote becomes the four
  bytes \<^verbatim>\<open>'\''\<close>.\<close>

definition escape_squote :: "string \<Rightarrow> string" where
  "escape_squote block =
     concat (map (\<lambda>c. if c = CHR 0x27 then squote @ backslash @ squote @ squote else [c]) block)"


section \<open>Package generator: bodies and suites\<close>

text \<open>\<^verbatim>\<open>type Body []string\<close>: a list of opaque command blocks.\<close>

type_synonym Body = "string list"

text \<open>
  \<^verbatim>\<open>type Suite struct\<close>.  The types \<^verbatim>\<open>Test\<close>, \<^verbatim>\<open>Dependency\<close> and
  \<^verbatim>\<open>Dependencies\<close> are declared in other files of the package; they are the type
  parameters \<open>'t\<close>, \<open>'dep\<close> and \<open>'deps\<close>.  The pointers in \<^verbatim>\<open>Children\<close> and
  \<^verbatim>\<open>Parents\<close> are unfolded into the tree they span.
\<close>

datatype ('t, 'dep, 'deps) Suite = Suite
  (Dir: string)
  (Location: string)
  (Dependency: 'dep)
  (Cleanup: Body)
  (Run: Body)
  (Tests: "'t list")
  (Children: "('t, 'dep, 'deps) Suite list")
  (Parents: "('t, 'dep, 'deps) Suite list")
  (Deps: 'deps)
  (DepsToSetup: 'deps)

text \<open>Assignments to the fields \<^verbatim>\<open>s.Run\<close>, \<^verbatim>\<open>s.Cleanup\<close> and \<^verbatim>\<open>s.Tests\<close>.\<close>

fun set_Run :: "Body \<Rightarrow> ('t, 'dep, 'deps) Suite \<Rightarrow> ('t, 'dep, 'deps) Suite" where
  "set_Run r' (Suite d l dep c r t ch ps ds dts) = Suite d l dep c r' t ch ps ds dts"

fun set_Cleanup :: "Body \<Rightarrow> ('t, 'dep, 'deps) Suite \<Rightarrow> ('t, 'dep, 'deps) Suite" where
  "set_Cleanup c' (Suite d l dep c r t ch ps ds dts) = Suite d l dep c' r t ch ps ds dts"

fun set_Tests :: "'t list \<Rightarrow> ('t, 'dep, 'deps) Suite \<Rightarrow> ('t, 'dep, 'deps) Suite" where
  "set_Tests t' (Suite d l dep c r t ch ps ds dts) = Suite d l dep c r t' ch ps ds dts"

text \<open>
  What the file calls and does not define: \<^verbatim>\<open>filepath.Abs\<close> (its error dropped, as
  the code does) and \<^verbatim>\<open>filepath.Dir\<close> of the standard library, and from the rest of
  the package the method \<^verbatim>\<open>Name\<close>, the renderers of \<^verbatim>\<open>Dependencies\<close> and of
  \<^verbatim>\<open>Test\<close>, the zero \<^verbatim>\<open>Test\<close> that \<^verbatim>\<open>new(Test)\<close> allocates, the title of a child
  (\<^verbatim>\<open>path.Split\<close>, \<^verbatim>\<open>nameRegex\<close> and \<^verbatim>\<open>cases.Title\<close>) and the replacement by
  \<^verbatim>\<open>spaceRegex\<close>.  They are parameters of the model.  \<open>Test_BashString_old\<close> is
  \<^verbatim>\<open>Test.BashString\<close> without the argument \<^verbatim>\<open>retry\<close>, as the earlier revision of the
  file calls it.
\<close>

record ('t, 'dep, 'deps) extern =
  filepath_Abs :: "string \<Rightarrow> string"
  filepath_Dir :: "string \<Rightarrow> string"
  Suite_Name :: "('t, 'dep, 'deps) Suite \<Rightarrow> string"
  Deps_String :: "'deps \<Rightarrow> string"
  Deps_FieldsString :: "'deps \<Rightarrow> string"
  Deps_SetupString :: "'deps \<Rightarrow> string"
  Test_String :: "'t \<Rightarrow> string"
  Test_BashString :: "bool \<Rightarrow> 't \<Rightarrow> string"
  new_Test :: 't
  child_Title :: "string \<Rightarrow> string"
  spaceRegex_ReplaceAll :: "string \<Rightarrow> string"
  Test_BashString_old :: "'t \<Rightarrow> string"

subsection \<open>Body.BashString\<close>

text \<open>The guard written after a setup line: \<^verbatim>\<open>"\t[ $? = 0 ] || exit 1\n"\<close>.\<close>

definition guard_text :: string where
  "guard_text = ''[ $? = 0 ] || exit 1''"

definition exit_guard :: string where
  "exit_guard = tab @ guard_text @ nl"

definition bash_block :: "bool \<Rightarrow> bool \<Rightarrow> string \<Rightarrow> string" where
  "bash_block withExit retry block =
     tab @ (if retry then ''try_run '' @ squote @ escape_squote block @ squote else block) @ nl
     @ (if withExit then exit_guard else [])"

definition Body_BashString :: "bool \<Rightarrow> bool \<Rightarrow> Body \<Rightarrow> string" where
  "Body_BashString withExit retry b =
     (if length b = 0 then tab @ '':'' @ nl
      else concat (map (bash_block withExit retry) b))"

subsection \<open>Linearisation of the ancestors\<close>

definition setup_marker :: "('t, 'dep, 'deps) extern \<Rightarrow> ('t, 'dep, 'deps) Suite \<Rightarrow> string" where
  "setup_marker ex s = ''echo 'setup suite '' @ filepath_Dir ex (Location s) @ squote"

definition cleanup_marker :: "('t, 'dep, 'deps) extern \<Rightarrow> ('t, 'dep, 'deps) Suite \<Rightarrow> string" where
  "cleanup_marker ex s = ''echo 'cleanup suite '' @ filepath_Dir ex (Location s) @ squote"

definition cd_cmd :: "('t, 'dep, 'deps) extern \<Rightarrow> ('t, 'dep, 'deps) Suite \<Rightarrow> string" where
  "cd_cmd ex s = ''cd '' @ filepath_Abs ex (Dir s)"

fun getDependenciesSetup ::
  "('t, 'dep, 'deps) extern \<Rightarrow> ('t, 'dep, 'deps) Suite \<Rightarrow> string list" where
  "getDependenciesSetup ex (Suite d l dep c r t ch ps ds dts) =
     concat (map (getDependenciesSetup ex) ps)
     @ [setup_marker ex (Suite d l dep c r t ch ps ds dts),
        cd_cmd ex (Suite d l dep c r t ch ps ds dts)]
     @ r"

definition getDependenciesCleanup ::
  "('t, 'dep, 'deps) extern \<Rightarrow> ('t, 'dep, 'deps) Suite \<Rightarrow> string list" where
  "getDependenciesCleanup ex s =
     [cleanup_marker ex s, cd_cmd ex s] @ Cleanup s
     @ concat (map (getDependenciesSetup ex) (Parents s))"

subsection \<open>Suite.BashString\<close>

text \<open>The two loops over \<^verbatim>\<open>s.Parents\<close> at the head of \<^verbatim>\<open>BashString\<close>.\<close>

definition setupDependencies ::
  "('t, 'dep, 'deps) extern \<Rightarrow> ('t, 'dep, 'deps) Suite \<Rightarrow> Body" where
  "setupDependencies ex s = concat (map (getDependenciesSetup ex) (Parents s))"

definition cleanupDependencies ::
  "('t, 'dep, 'deps) extern \<Rightarrow> ('t, 'dep, 'deps) Suite \<Rightarrow> Body" where
  "cleanupDependencies ex s = concat (map (getDependenciesCleanup ex) (Parents s))"

text \<open>The four assignments to \<^verbatim>\<open>s.Run\<close> and \<^verbatim>\<open>s.Cleanup\<close> through the pointer
  receiver: the suite as \<^verbatim>\<open>BashString\<close> leaves it.\<close>

definition BashString_prefixed ::
  "('t, 'dep, 'deps) extern \<Rightarrow> ('t, 'dep, 'deps) Suite \<Rightarrow> ('t, 'dep, 'deps) Suite" where
  "BashString_prefixed ex s =
     (let absDir = filepath_Abs ex (Dir s);
          s1 = set_Run ((''cd '' @ absDir) # Run s) s;
          s2 = set_Run (setup_marker ex s1 # Run s1) s1;
          s3 = set_Cleanup ((''cd '' @ absDir) # Cleanup s2) s2;
          s4 = set_Cleanup (cleanup_marker ex s3 # Cleanup s3) s3
      in s4)"


text \<open>The data handed to \<^verbatim>\<open>bashSuiteTemplate\<close> (its field \<^verbatim>\<open>Dir\<close> is \<open>Dir_b\<close> here).\<close>

record bash_data =
  Dir_b :: string
  SetupDependencies :: string
  SetupMain :: string
  CleanupDependencies :: string
  CleanupMain :: string
  RetryFunction :: string

text \<open>\<^verbatim>\<open>tmpl.Execute\<close> on \<^verbatim>\<open>bashSuiteTemplate\<close>: the text of the template with every
  action replaced by the field it names.\<close>

definition execute_bashSuiteTemplate :: "bash_data \<Rightarrow> string" where
  "execute_bashSuiteTemplate d =
     nl @ ''#!/usr/bin/env bash'' @ nl
     @ RetryFunction d @ nl
     @ ''setup_dependencies() {'' @ nl
     @ SetupDependencies d @ ''}'' @ nl
     @ nl
     @ ''setup_main() {'' @ nl
     @ SetupMain d @ ''}'' @ nl
     @ nl
     @ ''setup() {'' @ nl
     @ tab @ ''setup_dependencies && setup_main'' @ nl
     @ ''}'' @ nl
     @ nl
     @ ''cleanup_dependencies() {'' @ nl
     @ CleanupDependencies d @ tab @ ''# cleanup shouldn't report errors'' @ nl
     @ tab @ ''true'' @ nl
     @ ''}'' @ nl
     @ nl
     @ ''cleanup_main() {'' @ nl
     @ CleanupMain d @ tab @ ''# cleanup shouldn't report errors'' @ nl
     @ tab @ ''true'' @ nl
     @ ''}'' @ nl
     @ nl
     @ ''cleanup() {'' @ nl
     @ tab @ ''cleanup_main'' @ nl
     @ tab @ ''cleanup_dependencies'' @ nl
     @ ''}'' @ nl"

definition retryTemplate :: string where
  \<open>retryTemplate =
     nl @ ''function try_run() {'' @ nl
     @ ''    command="$1"'' @ nl
     @ ''    attempt=0'' @ nl
     @ ''    retry_interval=1'' @ nl
     @ ''    timeout="${RETRY_TIMEOUT_SECONDS:-300}"'' @ nl
     @ ''    start_time="$(date -u +%s)"'' @ nl
     @ ''    echo "===== next command ====="'' @ nl
     @ ''    echo "$command"'' @ nl
     @ ''    while true; do'' @ nl
     @ ''        attempt=$((attempt + 1))'' @ nl
     @ ''        echo "===== attempt $attempt ====="'' @ nl
     @ ''        echo "current time $(date +"%Y-%m-%dT%H:%M:%S%z")"'' @ nl
     @ ''        source /dev/stdin <<<"$(echo "${command}")"'' @ nl
     @ ''        retval=$?'' @ nl
     @ tab @ tab @ ''echo'' @ nl
     @ ''        echo "retval = $retval"'' @ nl
     @ ''        current_time="$(date -u +%s)"'' @ nl
     @ ''        elapsed=$((current_time-start_time))'' @ nl
     @ ''        echo "elapsed = $elapsed"'' @ nl
     @ ''        [ $retval = 0 ] && echo "===== command success =====" && return 0'' @ nl
     @ ''        [ "$elapsed" -gt "$timeout" ] && echo "===== command timed out =====" && return 1'' @ nl
     @ ''        sleep $retry_interval'' @ nl
     @ ''    done'' @ nl
     @ ''}'' @ nl\<close>

text \<open>The fields computed by \<^verbatim>\<open>BashString\<close> for the template: the setup bodies with
  \<^verbatim>\<open>withExit = true\<close>, the cleanup bodies with \<^verbatim>\<open>withExit = false\<close> and
  \<^verbatim>\<open>retry = false\<close>.\<close>

definition BashString_data ::
  "('t, 'dep, 'deps) extern \<Rightarrow> bool \<Rightarrow> ('t, 'dep, 'deps) Suite \<Rightarrow> bash_data" where
  "BashString_data ex retry s =
     (let s' = BashString_prefixed ex s in
      \<lparr> Dir_b = filepath_Abs ex (Dir s),
        SetupDependencies = Body_BashString True retry (setupDependencies ex s),
        SetupMain = Body_BashString True retry (Run s'),
        CleanupDependencies = Body_BashString False False (cleanupDependencies ex s),
        CleanupMain = Body_BashString False False (Cleanup s'),
        RetryFunction = (if retry then retryTemplate else []) \<rparr>)"

text \<open>\<^verbatim>\<open>func (s *Suite) BashString(retry bool) string\<close>: the script, and the suite behind
  the pointer receiver as the call leaves it.\<close>

definition Suite_BashString ::
  "('t, 'dep, 'deps) extern \<Rightarrow> bool \<Rightarrow> ('t, 'dep, 'deps) Suite
     \<Rightarrow> string \<times> ('t, 'dep, 'deps) Suite" where
  "Suite_BashString ex retry s =
     (let s' = BashString_prefixed ex s;
          result = execute_bashSuiteTemplate (BashString_data ex retry s);
          result = result @ concat (map (Test_BashString ex retry) (Tests s'));
          result = result @ nl @ nl;
          result = result @ dquote @ ''$1'' @ dquote @ nl
      in (result, s'))"

subsection \<open>Body.String and Suite.String\<close>

text \<open>The lines of one block, each between backquotes, joined by \<^verbatim>\<open>+"\n"+\<close>.\<close>

fun quote_lines :: "string list \<Rightarrow> string" where
  "quote_lines [] = []"
| "quote_lines [line] = backtick @ line @ backtick"
| "quote_lines (line # lines) =
     backtick @ line @ backtick @ ''+'' @ dquote @ backslash @ ''n'' @ dquote @ ''+''
     @ quote_lines lines"

definition Body_String :: "Body \<Rightarrow> string" where
  "Body_String b =
     (if length b = 0 then []
      else concat (map (\<lambda>block. ''r.Run('' @ quote_lines (Split_nl block) @ '')'' @ nl) b))"

text \<open>\<^verbatim>\<open>tmpl.Execute\<close> on \<^verbatim>\<open>includedSuiteTemplate\<close>, for the pairs of title and name.\<close>

definition execute_includedSuiteTemplate :: "(string \<times> string) list \<Rightarrow> string" where
  "execute_includedSuiteTemplate suites =
     nl @ tab
     @ concat (map (\<lambda>(title, name).
         nl @ tab @ tab @ ''s.Run('' @ dquote @ title @ dquote @ '', func() {'' @ nl
         @ tab @ tab @ tab @ ''suite.Run(s.T(), &s.'' @ name @ ''Suite)'' @ nl
         @ tab @ tab @ ''})'' @ nl
         @ tab) suites)
     @ nl"

definition generateChildrenTesting ::
  "('t, 'dep, 'deps) extern \<Rightarrow> ('t, 'dep, 'deps) Suite \<Rightarrow> string" where
  "generateChildrenTesting ex s =
     (if length (Children s) = 0 then []
      else execute_includedSuiteTemplate
             (map (\<lambda>child. (child_Title ex (Dir child), Suite_Name ex child)) (Children s)))"

text \<open>The data handed to \<^verbatim>\<open>suiteTemplate\<close> (the fields \<^verbatim>\<open>Dir\<close>, \<^verbatim>\<open>Name\<close>,
  \<^verbatim>\<open>Cleanup\<close> and \<^verbatim>\<open>Run\<close> carry the suffix \<open>_t\<close> here).\<close>

record suite_data =
  Dir_t :: string
  Name_t :: string
  Cleanup_t :: string
  Run_t :: string
  Fields :: string
  Imports :: string
  Setup :: string
  TestIncludedSuites :: string

text \<open>\<^verbatim>\<open>tmpl.Execute\<close> on \<^verbatim>\<open>suiteTemplate\<close>; a string is true in \<^verbatim>\<open>if\<close> and
  \<^verbatim>\<open>or\<close> when it is not empty.\<close>

definition execute_suiteTemplate :: "suite_data \<Rightarrow> string" where
  "execute_suiteTemplate d =
     ''// Code generated by gotestmd DO NOT EDIT.'' @ nl
     @ ''package '' @ Name_t d @ nl
     @ nl
     @ ''import('' @ nl
     @ tab @ Imports d @ nl
     @ '')'' @ nl
     @ nl
     @ ''type Suite struct {'' @ nl
     @ tab @ Fields d @ nl
     @ ''}'' @ nl
     @ nl
     @ ''func (s *Suite) SetupSuite() {'' @ nl
     @ tab @ Setup d @ nl
     @ tab
     @ (if Run_t d \<noteq> [] \<or> Cleanup_t d \<noteq> []
        then nl @ tab @ ''r := s.Runner('' @ dquote @ Dir_t d @ dquote @ '')'' @ nl @ tab
        else [])
     @ nl
     @ tab @ Cleanup_t d @ nl
     @ tab @ Run_t d @ nl
     @ nl
     @ (if TestIncludedSuites d \<noteq> []
        then nl @ tab @ ''s.RunIncludedSuites()'' @ nl
             @ ''}'' @ nl
             @ nl
             @ ''func (s *Suite) RunIncludedSuites() {'' @ nl
             @ tab @ TestIncludedSuites d @ nl
        else [])
     @ nl
     @ ''}'' @ nl"

text \<open>\<^verbatim>\<open>func (s *Suite) String() string\<close>: the generated code, and the suite behind the
  pointer receiver as the call leaves it.\<close>

definition Suite_String ::
  "('t, 'dep, 'deps) extern \<Rightarrow> ('t, 'dep, 'deps) Suite \<Rightarrow> string \<times> ('t, 'dep, 'deps) Suite" where
  "Suite_String ex s =
     (let cleanup = Body_String (Cleanup s);
          cleanup = (if length cleanup > 0
                     then tab @ ''s.T().Cleanup(func() {'' @ nl
                          @ tab @ tab @ cleanup @ nl
                          @ tab @ ''})''
                     else cleanup);
          result = execute_suiteTemplate
                     \<lparr> Dir_t = Dir s,
                       Name_t = Suite_Name ex s,
                       Cleanup_t = cleanup,
                       Run_t = Body_String (Run s),
                       Fields = Deps_FieldsString ex (Deps s),
                       Imports = Deps_String ex (Deps s),
                       Setup = Deps_SetupString ex (DepsToSetup s),
                       TestIncludedSuites = generateChildrenTesting ex s \<rparr>;
          s' = (if length (Tests s) = 0 then set_Tests (Tests s @ [new_Test ex]) s else s);
          result = result @ concat (map (Test_String ex) (Tests s'))
      in (spaceRegex_ReplaceAll ex (TrimSpace result), s'))"


subsection \<open>The earlier revision of the file\<close>

text \<open>
  \<^verbatim>\<open>src/unnamed/part_001\<close> is an earlier revision of \<^verbatim>\<open>suite.go\<close>, without the retry
  mode.  \<^verbatim>\<open>Body.String\<close>, \<^verbatim>\<open>Suite.String\<close> and \<^verbatim>\<open>getDependenciesSetup\<close> are the same
  in both; the functions that differ carry the suffix \<open>_old\<close>.
\<close>

text \<open>The lines of one block joined by \<^verbatim>\<open>" &&\n\t"\<close>.\<close>

fun join_and :: "string list \<Rightarrow> string" where
  "join_and [] = []"
| "join_and [line] = line"
| "join_and (line # lines) = line @ '' &&'' @ nl @ tab @ join_and lines"

definition bash_block_old :: "bool \<Rightarrow> string \<Rightarrow> string" where
  "bash_block_old withExit block =
     tab @ join_and (Split_nl block) @ (if withExit then '' || exit'' else []) @ nl"

definition Body_BashString_old :: "bool \<Rightarrow> Body \<Rightarrow> string" where
  "Body_BashString_old withExit b =
     (if length b = 0 then tab @ '':'' @ nl
      else concat (map (bash_block_old withExit) b))"

definition getDependenciesCleanup_old ::
  "('t, 'dep, 'deps) extern \<Rightarrow> ('t, 'dep, 'deps) Suite \<Rightarrow> string list" where
  "getDependenciesCleanup_old ex s =
     [cleanup_marker ex s] @ Cleanup s
     @ concat (map (getDependenciesSetup ex) (Parents s))"

definition cleanupDependencies_old ::
  "('t, 'dep, 'deps) extern \<Rightarrow> ('t, 'dep, 'deps) Suite \<Rightarrow> Body" where
  "cleanupDependencies_old ex s = concat (map (getDependenciesCleanup_old ex) (Parents s))"

definition BashString_prefixed_old ::
  "('t, 'dep, 'deps) extern \<Rightarrow> ('t, 'dep, 'deps) Suite \<Rightarrow> ('t, 'dep, 'deps) Suite" where
  "BashString_prefixed_old ex s =
     (let absDir = filepath_Abs ex (Dir s);
          s1 = set_Run ((''cd '' @ absDir) # Run s) s;
          s2 = set_Run (setup_marker ex s1 # Run s1) s1;
          s3 = set_Cleanup (cleanup_marker ex s2 # Cleanup s2) s2
      in s3)"

definition execute_bashSuiteTemplate_old :: "bash_data \<Rightarrow> string" where
  "execute_bashSuiteTemplate_old d =
     nl @ ''#! /bin/bash'' @ nl
     @ nl
     @ ''setup_dependencies() {'' @ nl
     @ SetupDependencies d @ ''}'' @ nl
     @ nl
     @ ''setup_main() {'' @ nl
     @ SetupMain d @ ''}'' @ nl
     @ nl
     @ ''setup() {'' @ nl
     @ tab @ ''setup_dependencies && setup_main'' @ nl
     @ ''}'' @ nl
     @ nl
     @ ''cleanup_dependencies() {'' @ nl
     @ CleanupDependencies d @ ''}'' @ nl
     @ nl
     @ ''cleanup_main() {'' @ nl
     @ CleanupMain d @ ''}'' @ nl
     @ nl
     @ ''cleanup() {'' @ nl
     @ tab @ ''cleanup_main && cleanup_dependencies'' @ nl
     @ ''}'' @ nl"

definition BashString_data_old ::
  "('t, 'dep, 'deps) extern \<Rightarrow> ('t, 'dep, 'deps) Suite \<Rightarrow> bash_data" where
  "BashString_data_old ex s =
     (let s' = BashString_prefixed_old ex s in
      \<lparr> Dir_b = filepath_Abs ex (Dir s),
        SetupDependencies = Body_BashString_old True (setupDependencies ex s),
        SetupMain = Body_BashString_old True (Run s'),
        CleanupDependencies = Body_BashString_old False (cleanupDependencies_old ex s),
        CleanupMain = Body_BashString_old False (Cleanup s'),
        RetryFunction = [] \<rparr>)"

definition Suite_BashString_old ::
  "('t, 'dep, 'deps) extern \<Rightarrow> ('t, 'dep, 'deps) Suite \<Rightarrow> string \<times> ('t, 'dep, 'deps) Suite" where
  "Suite_BashString_old ex s =
     (let s' = BashString_prefixed_old ex s;
          result = execute_bashSuiteTemplate_old (BashString_data_old ex s);
          result = result @ concat (map (Test_BashString_old ex) (Tests s'));
          result = result @ nl @ nl;
          result = result @ dquote @ ''$1'' @ dquote @ nl
      in (result, s'))"


section \<open>Package shell: the bash session\<close>

definition bufferSize :: nat where
  "bufferSize = push_bit 16 1"

definition checkStatus :: string where
  "checkStatus =
     ''if [ $? -eq 0 ]; then'' @ nl
     @ tab @ ''echo OK'' @ nl
     @ ''else'' @ nl
     @ tab @ ''echo FAILED'' @ nl
     @ ''fi''"

text \<open>
  The error values of the package: \<^verbatim>\<open>context.Canceled\<close> (what \<^verbatim>\<open>b.ctx.Err()\<close> is
  after \<^verbatim>\<open>b.cancel()\<close>), \<^verbatim>\<open>errors.New(msg)\<close>, and the error of a write to a closed
  pipe.
\<close>

datatype error = Canceled | ErrorsNew string | ErrClosedPipe

text \<open>A send of a listener: \<^verbatim>\<open>b.outCh <- output\<close> or \<^verbatim>\<open>b.errCh <- err\<close>.  The channels
  are unbuffered, so the listener is blocked in the send until \<^verbatim>\<open>Run\<close> receives it.\<close>

datatype send = ToOutCh string | ToErrCh error

text \<open>What one turn of a listener's loop meets: the context cancelled at the loop test,
  or the result of \<^verbatim>\<open>Read\<close>, an error or the \<open>n\<close> bytes read.\<close>

datatype turn = CtxCancelled | ReadError | ReadBytes string

subsection \<open>stderrHandler\<close>

text \<open>Every read starts at the head of the buffer, so \<^verbatim>\<open>buffer[:n]\<close> is the chunk read.
  The result lists the sends in order.\<close>

fun stderrHandler :: "turn list \<Rightarrow> send list" where
  "stderrHandler [] = []"
| "stderrHandler (CtxCancelled # ts) = []"
| "stderrHandler (ReadError # ts) = []"
| "stderrHandler (ReadBytes chunk # ts) = ToErrCh (ErrorsNew chunk) # stderrHandler ts"

subsection \<open>stdoutHandler\<close>

text \<open>The local variables of \<^verbatim>\<open>stdoutHandler\<close> (\<^verbatim>\<open>output\<close> is \<open>output_v\<close> here).\<close>

record stdout_loop =
  output_v :: string
  buffer :: string
  cur :: nat

definition stdout_loop_init :: stdout_loop where
  "stdout_loop_init = \<lparr> output_v = [], buffer = replicate bufferSize (CHR 0x00), cur = 0 \<rparr>"

text \<open>\<^verbatim>\<open>stdout.Read(buffer[cur:])\<close> returning the \<open>n\<close> bytes of \<open>chunk\<close> writes them at
  offset \<open>cur\<close>; \<open>n\<close> is at most \<^verbatim>\<open>len(buffer[cur:])\<close>.\<close>

definition read_into :: "string \<Rightarrow> nat \<Rightarrow> string \<Rightarrow> string" where
  "read_into buf k chunk = take k buf @ chunk @ drop (k + length chunk) buf"

text \<open>\<^verbatim>\<open>r := strings.TrimSpace(string(buffer[:cur+n]))\<close> after that read.\<close>

definition examined :: "stdout_loop \<Rightarrow> string \<Rightarrow> string" where
  "examined st chunk =
     TrimSpace (take (cur st + length chunk) (read_into (buffer st) (cur st) chunk))"

text \<open>The body of the loop after a read without error: the send it makes, if any, and
  the local variables after it.\<close>

definition stdoutHandler_body :: "stdout_loop \<Rightarrow> string \<Rightarrow> send option \<times> stdout_loop" where
  "stdoutHandler_body st chunk =
     (let n = length chunk;
          buf = read_into (buffer st) (cur st) chunk;
          r = examined st chunk
      in if HasSuffix r ''OK'' then
           (let out = (if length r > 2 then take (length r - length (nl @ ''OK'')) r
                       else output_v st)
            in (Some (ToOutCh out), \<lparr> output_v = [], buffer = buf, cur = 0 \<rparr>))
         else if HasSuffix r ''FAILED'' then
           (Some (ToErrCh (ErrorsNew ''command has failed'')),
            \<lparr> output_v = output_v st, buffer = buf, cur = 0 \<rparr>)
         else
           (let cur' = cur st + n
            in (None, \<lparr> output_v = output_v st, buffer = buf,
                        cur = (if cur' = bufferSize then 0 else cur') \<rparr>)))"

fun stdoutHandler :: "stdout_loop \<Rightarrow> turn list \<Rightarrow> send list \<times> stdout_loop" where
  "stdoutHandler st [] = ([], st)"
| "stdoutHandler st (CtxCancelled # ts) = ([], st)"
| "stdoutHandler st (ReadError # ts) = ([], st)"
| "stdoutHandler st (ReadBytes chunk # ts) =
     (case stdoutHandler_body st chunk of
        (m, st') \<Rightarrow>
          (case stdoutHandler st' ts of
             (ms, st'') \<Rightarrow> ((case m of None \<Rightarrow> [] | Some x \<Rightarrow> [x]) @ ms, st'')))"

text \<open>The state in which the loop can be: the buffer has its size and \<open>cur\<close> is inside
  it; \<open>output_v\<close> is empty at the head of every turn.\<close>

definition loop_ok :: "stdout_loop \<Rightarrow> bool" where
  "loop_ok st \<longleftrightarrow> length (buffer st) = bufferSize \<and> cur st < bufferSize \<and> output_v st = []"

subsection \<open>The session\<close>

text \<open>
  What \<^verbatim>\<open>init\<close> asks of the operating system: \<^verbatim>\<open>exec.LookPath("bash")\<close>, the three
  pipes and \<^verbatim>\<open>cmd.Start\<close>, each with the text of its error if it fails, and
  \<^verbatim>\<open>os.Environ()\<close>.
\<close>

record os =
  LookPath_bash :: "string + string"
  StderrPipe_err :: "string option"
  StdinPipe_err :: "string option"
  StdoutPipe_err :: "string option"
  Start_err :: "string option"
  Environ :: "string list"

text \<open>
  \<^verbatim>\<open>type Bash struct\<close> with its process and its two listeners.  \<open>once_done\<close> is the
  state of \<^verbatim>\<open>b.once\<close>; \<open>ctx_err\<close> is \<^verbatim>\<open>b.ctx.Err()\<close>; \<open>stdin_bytes\<close> is what has been
  written to the standard input of the process, \<open>stdin_closed\<close> whether that pipe has
  been closed; \<open>stderr_send\<close> and \<open>stdout_send\<close> are the sends in which the two listeners
  are blocked, if they are; \<open>stdout_st\<close> holds the local variables of
  \<^verbatim>\<open>stdoutHandler\<close>; \<open>Path_cmd\<close> is \<^verbatim>\<open>b.cmd.Path\<close>.
\<close>

record Bash =
  Dir_sh :: string
  Env :: "string list"
  once_done :: bool
  ctx_err :: "error option"
  Path_cmd :: string
  stdin_bytes :: string
  stdin_closed :: bool
  stderr_send :: "error option"
  stdout_send :: "send option"
  stdout_st :: stdout_loop

text \<open>\<^verbatim>\<open>init\<close>; \<open>Inl msg\<close> is \<^verbatim>\<open>panic(msg)\<close>.\<close>

definition init :: "os \<Rightarrow> Bash \<Rightarrow> string + Bash" where
  "init w b =
     (case LookPath_bash w of
        Inl e \<Rightarrow> Inl e
      | Inr p \<Rightarrow>
          (case StderrPipe_err w of Some e \<Rightarrow> Inl e | None \<Rightarrow>
          (case StdinPipe_err w of Some e \<Rightarrow> Inl e | None \<Rightarrow>
          (case StdoutPipe_err w of Some e \<Rightarrow> Inl e | None \<Rightarrow>
          (case Start_err w of Some e \<Rightarrow> Inl e | None \<Rightarrow>
             Inr (b\<lparr> Env := (if length (Env b) = 0 then Environ w else Env b),
                     ctx_err := None,
                     Path_cmd := p,
                     stdin_bytes := [],
                     stdin_closed := False,
                     stderr_send := None,
                     stdout_send := None,
                     stdout_st := stdout_loop_init \<rparr>))))))"

text \<open>\<^verbatim>\<open>b.once.Do(b.init)\<close>.\<close>

definition once_Do_init :: "os \<Rightarrow> Bash \<Rightarrow> string + Bash" where
  "once_Do_init w b =
     (if once_done b then Inr b
      else (case init w b of Inl e \<Rightarrow> Inl e | Inr b' \<Rightarrow> Inr (b'\<lparr> once_done := True \<rparr>)))"

text \<open>\<^verbatim>\<open>b.stdin.Write(bytes)\<close>.\<close>

definition stdin_Write :: "Bash \<Rightarrow> string \<Rightarrow> error + Bash" where
  "stdin_Write b bytes =
     (if stdin_closed b then Inl ErrClosedPipe
      else Inr (b\<lparr> stdin_bytes := stdin_bytes b @ bytes \<rparr>))"

text \<open>\<^verbatim>\<open>Close\<close>: the error of the write is dropped, \<^verbatim>\<open>cmd.Wait\<close> lets the process end, and
  the three pipes are closed.\<close>

definition Close :: "os \<Rightarrow> Bash \<Rightarrow> string + Bash" where
  "Close w b =
     (case once_Do_init w b of
        Inl e \<Rightarrow> Inl e
      | Inr b1 \<Rightarrow>
          (let b2 = b1\<lparr> ctx_err := Some Canceled \<rparr>;
               b3 = (case stdin_Write b2 (''exit 0'' @ nl) of Inl e \<Rightarrow> b2 | Inr b' \<Rightarrow> b')
           in Inr (b3\<lparr> stdin_closed := True \<rparr>)))"

text \<open>
  What happens beside a pending \<^verbatim>\<open>Run\<close>: a listener reads a chunk and runs one turn
  of its loop, or the context is cancelled.  A listener that is blocked in a send reads
  nothing.
\<close>

datatype event = StdoutRead string | StderrRead string | Cancel

fun listen :: "Bash \<Rightarrow> event \<Rightarrow> Bash" where
  "listen b (StdoutRead chunk) =
     (case stdout_send b of
        Some m \<Rightarrow> b
      | None \<Rightarrow>
          (case stdoutHandler_body (stdout_st b) chunk of
             (m, st') \<Rightarrow> b\<lparr> stdout_send := m, stdout_st := st' \<rparr>))"
| "listen b (StderrRead chunk) =
     (case stderr_send b of
        Some e \<Rightarrow> b
      | None \<Rightarrow> b\<lparr> stderr_send := Some (ErrorsNew chunk) \<rparr>)"
| "listen b Cancel = b\<lparr> ctx_err := Some Canceled \<rparr>"

text \<open>The chunks that the events hand to the stdout listener and to the stderr listener,
  in order.\<close>

fun stdout_reads :: "event list \<Rightarrow> string list" where
  "stdout_reads [] = []"
| "stdout_reads (StdoutRead chunk # evs) = chunk # stdout_reads evs"
| "stdout_reads (StderrRead chunk # evs) = stdout_reads evs"
| "stdout_reads (Cancel # evs) = stdout_reads evs"

fun stderr_reads :: "event list \<Rightarrow> string list" where
  "stderr_reads [] = []"
| "stderr_reads (StdoutRead chunk # evs) = stderr_reads evs"
| "stderr_reads (StderrRead chunk # evs) = chunk # stderr_reads evs"
| "stderr_reads (Cancel # evs) = stderr_reads evs"

text \<open>
  The \<^verbatim>\<open>select\<close> of \<^verbatim>\<open>Run\<close>: one result for every case that can proceed, in the order
  of the cases; Go chooses among them at random.  No result: \<^verbatim>\<open>Run\<close> stays blocked.
\<close>

definition select_Run :: "Bash \<Rightarrow> ((string \<times> error option) \<times> Bash) list" where
  "select_Run b =
     (case stderr_send b of
        Some e \<Rightarrow> [(([], Some e), b\<lparr> stderr_send := None \<rparr>)]
      | None \<Rightarrow> [])
     @ (case stdout_send b of
          Some (ToErrCh e) \<Rightarrow> [(([], Some e), b\<lparr> stdout_send := None \<rparr>)]
        | _ \<Rightarrow> [])
     @ (case stdout_send b of
          Some (ToOutCh out) \<Rightarrow> [((out, None), b\<lparr> stdout_send := None \<rparr>)]
        | _ \<Rightarrow> [])
     @ (case ctx_err b of
          Some e \<Rightarrow> [(([], Some e), b)]
        | None \<Rightarrow> [])"

text \<open>
  \<^verbatim>\<open>func (b *Bash) Run(s string) (output string, err error)\<close>, with the events \<open>evs\<close>
  that happen between the two writes and the choice of the \<^verbatim>\<open>select\<close>.  \<open>Inl msg\<close> is
  a panic of \<^verbatim>\<open>init\<close>; \<open>Inr\<close> holds the results that \<^verbatim>\<open>Run\<close> can return, each with the
  session after it.
\<close>

definition Bash_Run ::
  "os \<Rightarrow> Bash \<Rightarrow> string \<Rightarrow> event list
     \<Rightarrow> string + ((string \<times> error option) \<times> Bash) list" where
  "Bash_Run w b s evs =
     (case once_Do_init w b of
        Inl e \<Rightarrow> Inl e
      | Inr b0 \<Rightarrow>
          Inr (if ctx_err b0 \<noteq> None then [(([], ctx_err b0), b0)]
               else (case stdin_Write b0 (s @ nl) of
                       Inl e \<Rightarrow> [(([], Some e), b0)]
                     | Inr b1 \<Rightarrow>
                         (case stdin_Write b1 (checkStatus @ nl) of
                            Inl e \<Rightarrow> [(([], Some e), b1)]
                          | Inr b2 \<Rightarrow> select_Run (foldl listen b2 evs)))))"

text \<open>The result that \<^verbatim>\<open>Run\<close> receives from the stdout listener: that of the first
  send the listener makes, if it makes one.\<close>

definition first_stdout_result :: "send list \<Rightarrow> (string \<times> error option) list" where
  "first_stdout_result ms =
     (case ms of
        [] \<Rightarrow> []
      | ToErrCh e # _ \<Rightarrow> [([], Some e)]
      | ToOutCh out # _ \<Rightarrow> [(out, None)])"

text \<open>The pairs \<^verbatim>\<open>(output, err)\<close> that \<^verbatim>\<open>Run\<close> can return, without the sessions.\<close>

definition Run_results ::
  "os \<Rightarrow> Bash \<Rightarrow> string \<Rightarrow> event list \<Rightarrow> string + (string \<times> error option) list" where
  "Run_results w b s evs =
     (case Bash_Run w b s evs of Inl e \<Rightarrow> Inl e | Inr outs \<Rightarrow> Inr (map fst outs))"


section \<open>Values for the examples\<close>

definition ex0 :: "(unit, unit, unit) extern" where
  "ex0 = \<lparr> filepath_Abs = (\<lambda>d. ''/repo/'' @ d),
           filepath_Dir = (\<lambda>l. takeWhile (\<lambda>c. c \<noteq> CHR ''/'') l),
           Suite_Name = (\<lambda>s. Dir s),
           Deps_String = (\<lambda>_. []),
           Deps_FieldsString = (\<lambda>_. []),
           Deps_SetupString = (\<lambda>_. []),
           Test_String = (\<lambda>_. ''func (s *Suite) Test() {}''),
           Test_BashString = (\<lambda>_ _. []),
           new_Test = (),
           child_Title = (\<lambda>d. d),
           spaceRegex_ReplaceAll = (\<lambda>r. r),
           Test_BashString_old = (\<lambda>_. []) \<rparr>"

definition suiteT :: "(unit, unit, unit) Suite" where
  "suiteT = Suite ''t'' ''t/README.md'' () [] [''touch t''] [()] [] [] () ()"

text \<open>A suite whose second cleanup command is the text of the guard.\<close>

definition suiteG :: "(unit, unit, unit) Suite" where
  "suiteG = Suite ''g'' ''g/README.md'' () [''rm g'', guard_text] [''touch g''] [] [] [] () ()"

definition suiteA :: "(unit, unit, unit) Suite" where
  "suiteA = Suite ''a'' ''a/README.md'' () [''rm a''] [''touch a''] [] [] [] () ()"

definition suiteB :: "(unit, unit, unit) Suite" where
  "suiteB = Suite ''b'' ''b/README.md'' () [''rm b''] [''touch b''] [] [] [suiteA] () ()"

definition suiteC :: "(unit, unit, unit) Suite" where
  "suiteC = Suite ''c'' ''c/README.md'' () [''rm c''] [''touch c''] [] [] [suiteB] () ()"

definition os0 :: os where
  "os0 = \<lparr> LookPath_bash = Inr ''/bin/bash'', StderrPipe_err = None, StdinPipe_err = None,
           StdoutPipe_err = None, Start_err = None, Environ = [''HOME=/root''] \<rparr>"

text \<open>The zero value of \<^verbatim>\<open>Bash\<close>, before \<^verbatim>\<open>init\<close>.\<close>

definition bash0 :: Bash where
  "bash0 = \<lparr> Dir_sh = [], Env = [], once_done = False, ctx_err = None, Path_cmd = [],
             stdin_bytes = [], stdin_closed = False, stderr_send = None, stdout_send = None,
             stdout_st = \<lparr> output_v = [], buffer = [], cur = 0 \<rparr> \<rparr>"

text \<open>The session as \<^verbatim>\<open>init\<close> leaves it.\<close>

definition bash_started :: Bash where
  "bash_started = \<lparr> Dir_sh = [], Env = [''HOME=/root''], once_done = True, ctx_err = None,
             Path_cmd = ''/bin/bash'', stdin_bytes = [], stdin_closed = False,
             stderr_send = None, stdout_send = None, stdout_st = stdout_loop_init \<rparr>"


section \<open>Properties of the generator\<close>

lemma getDependenciesSetup_unfold:
  "getDependenciesSetup ex s =
     concat (map (getDependenciesSetup ex) (Parents s)) @ [setup_marker ex s, cd_cmd ex s] @ Run s"
  by (cases s) simp

lemma Run_set_Run [simp]: "Run (set_Run r s) = r"
  by (cases s) simp

lemma Cleanup_set_Cleanup [simp]: "Cleanup (set_Cleanup c s) = c"
  by (cases s) simp

lemma Tests_set_Tests [simp]: "Tests (set_Tests t s) = t"
  by (cases s) simp

lemma set_Run_frame [simp]:
  "Dir (set_Run r s) = Dir s" "Location (set_Run r s) = Location s"
  "Cleanup (set_Run r s) = Cleanup s" "Parents (set_Run r s) = Parents s"
  "Tests (set_Run r s) = Tests s" "Children (set_Run r s) = Children s"
  by (cases s; simp)+

lemma set_Cleanup_frame [simp]:
  "Dir (set_Cleanup c s) = Dir s" "Location (set_Cleanup c s) = Location s"
  "Run (set_Cleanup c s) = Run s" "Parents (set_Cleanup c s) = Parents s"
  "Tests (set_Cleanup c s) = Tests s" "Children (set_Cleanup c s) = Children s"
  by (cases s; simp)+

lemma Run_BashString_prefixed:
  "Run (BashString_prefixed ex s) = [setup_marker ex s, cd_cmd ex s] @ Run s"
  by (simp add: BashString_prefixed_def Let_def setup_marker_def cd_cmd_def)

lemma Cleanup_BashString_prefixed:
  "Cleanup (BashString_prefixed ex s) = [cleanup_marker ex s, cd_cmd ex s] @ Cleanup s"
  by (simp add: BashString_prefixed_def Let_def cleanup_marker_def cd_cmd_def)

lemma Run_BashString_prefixed_old:
  "Run (BashString_prefixed_old ex s) = [setup_marker ex s, cd_cmd ex s] @ Run s"
  by (simp add: BashString_prefixed_old_def Let_def setup_marker_def cd_cmd_def)

lemma Cleanup_BashString_prefixed_old:
  "Cleanup (BashString_prefixed_old ex s) = [cleanup_marker ex s] @ Cleanup s"
  by (simp add: BashString_prefixed_old_def Let_def cleanup_marker_def)

text \<open>
  C2.  For a suite \<open>s\<close> whose only parent is \<open>B\<close>, whose only parent is \<open>A\<close>, and whose
  own \<^verbatim>\<open>Run\<close> body is \<open>[c]\<close>, the body of \<^verbatim>\<open>setup_dependencies\<close> followed by the body
  of \<^verbatim>\<open>setup_main\<close> is the setup expansion of \<open>A\<close>, then the marker, the directory
  change and the \<^verbatim>\<open>Run\<close> body of \<open>B\<close>, then the marker and the directory change of
  \<open>s\<close> and \<open>c\<close>; in both revisions of the file.
\<close>

theorem setup_chain_of_two:
  assumes "Parents s = [B]" and "Parents B = [A]" and "Run s = [c]"
  shows "setupDependencies ex s @ Run (BashString_prefixed ex s) =
           getDependenciesSetup ex A
           @ [setup_marker ex B, cd_cmd ex B] @ Run B
           @ [setup_marker ex s, cd_cmd ex s, c]
       \<and> setupDependencies ex s @ Run (BashString_prefixed_old ex s) =
           getDependenciesSetup ex A
           @ [setup_marker ex B, cd_cmd ex B] @ Run B
           @ [setup_marker ex s, cd_cmd ex s, c]"
proof -
  have "setupDependencies ex s = getDependenciesSetup ex B"
    using assms(1) by (simp add: setupDependencies_def)
  also have "\<dots> = getDependenciesSetup ex A @ [setup_marker ex B, cd_cmd ex B] @ Run B"
    using assms(2) by (subst getDependenciesSetup_unfold) simp
  finally show ?thesis
    using assms(3) by (simp add: Run_BashString_prefixed Run_BashString_prefixed_old)
qed

theorem setup_chain_of_two_witness:
  "Parents suiteC = [suiteB] \<and> Parents suiteB = [suiteA] \<and> Run suiteC = [''touch c'']
   \<and> setupDependencies ex0 suiteC @ Run (BashString_prefixed ex0 suiteC) =
       [''echo 'setup suite a'' @ squote, ''cd /repo/a'', ''touch a'',
        ''echo 'setup suite b'' @ squote, ''cd /repo/b'', ''touch b'',
        ''echo 'setup suite c'' @ squote, ''cd /repo/c'', ''touch c'']"
  using setup_chain_of_two [of suiteC suiteB suiteA "''touch c''" ex0]
  by (simp add: suiteA_def suiteB_def suiteC_def ex0_def setup_marker_def cd_cmd_def)

text \<open>
  C3.  The body of \<^verbatim>\<open>cleanup_main\<close> followed by the body of \<^verbatim>\<open>cleanup_dependencies\<close>
  starts with the suite's own cleanup marker and its \<^verbatim>\<open>Cleanup\<close> body; then comes, for
  each parent in the order of \<^verbatim>\<open>Parents\<close>, the parent's cleanup marker and \<^verbatim>\<open>Cleanup\<close>
  body followed by the expansion of the parent's own parents, which is computed by
  \<^verbatim>\<open>getDependenciesSetup\<close>: it lists their setup markers and \<^verbatim>\<open>Run\<close> bodies.  In
  \<^verbatim>\<open>suite.go\<close> every cleanup marker is followed by the directory change of its suite;
  the earlier revision has none there.
\<close>

theorem cleanup_linearisation:
  "Cleanup (BashString_prefixed ex s) @ cleanupDependencies ex s =
     [cleanup_marker ex s, cd_cmd ex s] @ Cleanup s
     @ concat (map (\<lambda>p. [cleanup_marker ex p, cd_cmd ex p] @ Cleanup p
                          @ concat (map (getDependenciesSetup ex) (Parents p)))
                   (Parents s))
   \<and> Cleanup (BashString_prefixed_old ex s) @ cleanupDependencies_old ex s =
     [cleanup_marker ex s] @ Cleanup s
     @ concat (map (\<lambda>p. [cleanup_marker ex p] @ Cleanup p
                          @ concat (map (getDependenciesSetup ex) (Parents p)))
                   (Parents s))"
  unfolding cleanupDependencies_def getDependenciesCleanup_def [abs_def]
    cleanupDependencies_old_def getDependenciesCleanup_old_def [abs_def]
  by (simp add: Cleanup_BashString_prefixed Cleanup_BashString_prefixed_old)

theorem cleanup_linearisation_example:
  "Cleanup (BashString_prefixed ex0 suiteC) @ cleanupDependencies ex0 suiteC =
     [''echo 'cleanup suite c'' @ squote, ''cd /repo/c'', ''rm c'',
      ''echo 'cleanup suite b'' @ squote, ''cd /repo/b'', ''rm b'',
      ''echo 'setup suite a'' @ squote, ''cd /repo/a'', ''touch a'']
   \<and> Cleanup (BashString_prefixed_old ex0 suiteC) @ cleanupDependencies_old ex0 suiteC =
     [''echo 'cleanup suite c'' @ squote, ''rm c'',
      ''echo 'cleanup suite b'' @ squote, ''rm b'',
      ''echo 'setup suite a'' @ squote, ''cd /repo/a'', ''touch a'']"
  using cleanup_linearisation [of ex0 suiteC]
  by (simp add: suiteA_def suiteB_def suiteC_def ex0_def setup_marker_def cleanup_marker_def
      cd_cmd_def)

lemma sublist_skip_head:
  assumes "sub \<noteq> []" and "c \<notin> set sub"
  shows "sublist sub (c # xs) \<longleftrightarrow> sublist sub xs"
proof -
  have "\<not> prefix sub (c # xs)"
    using assms by (cases sub) auto
  then show ?thesis
    by (simp add: sublist_Cons_right)
qed

lemma sublist_across_separator:
  assumes "sub \<noteq> []" and "c \<notin> set sub"
  shows "sublist sub (xs @ c # ys) \<longleftrightarrow> sublist sub xs \<or> sublist sub ys"
proof
  assume "sublist sub (xs @ c # ys)"
  then consider "sublist sub xs" | "sublist sub (c # ys)"
    | s1 s2 where "sub = s1 @ s2" "suffix s1 xs" "prefix s2 (c # ys)"
    by (auto simp: sublist_append)
  then show "sublist sub xs \<or> sublist sub ys"
  proof cases
    case 1
    then show ?thesis by simp
  next
    case 2
    then show ?thesis using assms by (simp add: sublist_skip_head)
  next
    case 3
    show ?thesis
    proof (cases s2)
      case Nil
      then show ?thesis using 3 by (auto dest: suffix_imp_sublist)
    next
      case (Cons y zs)
      then have "y = c" using 3(3) by simp
      then have "c \<in> set sub" using 3(1) Cons by simp
      then show ?thesis using assms(2) by simp
    qed
  qed
next
  assume "sublist sub xs \<or> sublist sub ys"
  then show "sublist sub (xs @ c # ys)"
    by (auto simp: sublist_append sublist_Cons_right)
qed

lemma sublist_wrapped_blocks:
  assumes "sublist sub (concat (map (\<lambda>b. c1 # b @ [c2]) bs))"
    and "sub \<noteq> []" and "c1 \<notin> set sub" and "c2 \<notin> set sub"
  shows "\<exists>b\<in>set bs. sublist sub b"
  using assms(1)
proof (induction bs)
  case Nil
  then show ?case using assms(2) by simp
next
  case (Cons b bs)
  then have "sublist sub (b @ c2 # concat (map (\<lambda>b. c1 # b @ [c2]) bs))"
    using assms(2,3) by (simp add: sublist_skip_head)
  then have "sublist sub b \<or> sublist sub (concat (map (\<lambda>b. c1 # b @ [c2]) bs))"
    using assms(2,4) by (simp add: sublist_across_separator)
  then show ?case using Cons.IH by auto
qed

lemma guard_text_chars:
  "guard_text \<noteq> []" "CHR 0x09 \<notin> set guard_text" "CHR 0x0A \<notin> set guard_text"
  by (simp_all add: guard_text_def)

lemma no_guard_without_exit:
  assumes "\<forall>blk\<in>set b. \<not> sublist guard_text blk"
  shows "\<not> sublist guard_text (Body_BashString False False b)"
proof (cases "b = []")
  case True
  have "\<not> sublist guard_text (tab @ '':'' @ nl)"
    by (simp add: guard_text_def tab_def nl_def sublist_Cons_right)
  then show ?thesis using True by (simp add: Body_BashString_def)
next
  case False
  have "Body_BashString False False b = concat (map (\<lambda>blk. CHR 0x09 # blk @ [CHR 0x0A]) b)"
    using False by (simp add: Body_BashString_def bash_block_def [abs_def] tab_def nl_def)
  then show ?thesis
    using assms sublist_wrapped_blocks [of guard_text "CHR 0x09" "CHR 0x0A" b] guard_text_chars
    by auto
qed

lemma Body_BashString_no_exit:
  "Body_BashString False False b =
     (if b = [] then tab @ '':'' @ nl else concat (map (\<lambda>blk. tab @ blk @ nl) b))"
  by (simp add: Body_BashString_def bash_block_def [abs_def])

lemma Body_BashString_with_exit:
  "Body_BashString True retry b =
     (if b = [] then tab @ '':'' @ nl
      else concat (map (\<lambda>blk. bash_block False retry blk @ exit_guard) b))"
  by (simp add: Body_BashString_def bash_block_def [abs_def])

text \<open>
  C9, as amended.  \<^verbatim>\<open>BashString\<close> renders both cleanup bodies with
  \<^verbatim>\<open>withExit = false\<close>: the body of \<^verbatim>\<open>cleanup_main\<close> and the body of
  \<^verbatim>\<open>cleanup_dependencies\<close> are the command blocks of their sequences, each between a
  tab and a newline, with nothing after any of them (the line \<^verbatim>\<open>:\<close> for an empty
  sequence), whereas in the two setup bodies, rendered by the same function, every
  block is followed by the guard line.  So a cleanup body contains the text of the
  guard only where a command block itself contains it.
\<close>

theorem cleanup_never_guarded:
  "CleanupMain (BashString_data ex retry s) =
     concat (map (\<lambda>blk. tab @ blk @ nl) (Cleanup (BashString_prefixed ex s)))
   \<and> CleanupDependencies (BashString_data ex retry s) =
     (if cleanupDependencies ex s = [] then tab @ '':'' @ nl
      else concat (map (\<lambda>blk. tab @ blk @ nl) (cleanupDependencies ex s)))
   \<and> SetupMain (BashString_data ex retry s) =
     concat (map (\<lambda>blk. bash_block False retry blk @ exit_guard) (Run (BashString_prefixed ex s)))
   \<and> SetupDependencies (BashString_data ex retry s) =
     (if setupDependencies ex s = [] then tab @ '':'' @ nl
      else concat (map (\<lambda>blk. bash_block False retry blk @ exit_guard) (setupDependencies ex s)))
   \<and> ((\<forall>blk\<in>set (Cleanup (BashString_prefixed ex s) @ cleanupDependencies ex s).
          \<not> sublist guard_text blk) \<longrightarrow>
        \<not> sublist guard_text (CleanupMain (BashString_data ex retry s))
        \<and> \<not> sublist guard_text (CleanupDependencies (BashString_data ex retry s)))"
proof -
  have "\<not> sublist guard_text (Body_BashString False False (Cleanup (BashString_prefixed ex s)))"
    if "\<forall>blk\<in>set (Cleanup (BashString_prefixed ex s) @ cleanupDependencies ex s).
          \<not> sublist guard_text blk"
    using that by (intro no_guard_without_exit) simp
  moreover have "\<not> sublist guard_text (Body_BashString False False (cleanupDependencies ex s))"
    if "\<forall>blk\<in>set (Cleanup (BashString_prefixed ex s) @ cleanupDependencies ex s).
          \<not> sublist guard_text blk"
    using that by (intro no_guard_without_exit) simp
  moreover have "Cleanup (BashString_prefixed ex s) \<noteq> []" "Run (BashString_prefixed ex s) \<noteq> []"
    by (simp_all add: Cleanup_BashString_prefixed Run_BashString_prefixed)
  ultimately show ?thesis
    unfolding BashString_data_def Let_def
    by (simp add: Body_BashString_no_exit Body_BashString_with_exit
        del: Body_BashString_def)
qed

theorem cleanup_never_guarded_witness:
  "CleanupMain (BashString_data ex0 False suiteC) =
     tab @ ''echo 'cleanup suite c'' @ squote @ nl @ tab @ ''cd /repo/c'' @ nl
     @ tab @ ''rm c'' @ nl
   \<and> SetupMain (BashString_data ex0 False suiteC) =
     tab @ ''echo 'setup suite c'' @ squote @ nl @ exit_guard
     @ tab @ ''cd /repo/c'' @ nl @ exit_guard
     @ tab @ ''touch c'' @ nl @ exit_guard
   \<and> \<not> sublist guard_text (CleanupMain (BashString_data ex0 False suiteC))
   \<and> \<not> sublist guard_text (CleanupDependencies (BashString_data ex0 False suiteC))"
proof -
  have seq: "Cleanup (BashString_prefixed ex0 suiteC) @ cleanupDependencies ex0 suiteC =
     [''echo 'cleanup suite c'' @ squote, ''cd /repo/c'', ''rm c'',
      ''echo 'cleanup suite b'' @ squote, ''cd /repo/b'', ''rm b'',
      ''echo 'setup suite a'' @ squote, ''cd /repo/a'', ''touch a'']"
    unfolding cleanupDependencies_def getDependenciesCleanup_def [abs_def]
    by (simp add: Cleanup_BashString_prefixed suiteA_def suiteB_def suiteC_def ex0_def
        setup_marker_def cleanup_marker_def cd_cmd_def)
  have h: "\<forall>blk\<in>set (Cleanup (BashString_prefixed ex0 suiteC) @ cleanupDependencies ex0 suiteC).
       \<not> sublist guard_text blk"
    unfolding seq by (simp add: guard_text_def squote_def sublist_Cons_right)
  have c: "Cleanup (BashString_prefixed ex0 suiteC) =
      [''echo 'cleanup suite c'' @ squote, ''cd /repo/c'', ''rm c'']"
    by (simp add: Cleanup_BashString_prefixed suiteC_def ex0_def cleanup_marker_def cd_cmd_def)
  have r: "Run (BashString_prefixed ex0 suiteC) =
      [''echo 'setup suite c'' @ squote, ''cd /repo/c'', ''touch c'']"
    by (simp add: Run_BashString_prefixed suiteC_def ex0_def setup_marker_def cd_cmd_def)
  note t = cleanup_never_guarded [of ex0 False suiteC]
  from t have "CleanupMain (BashString_data ex0 False suiteC) =
      concat (map (\<lambda>blk. tab @ blk @ nl) (Cleanup (BashString_prefixed ex0 suiteC)))"
    by blast
  then have cm: "CleanupMain (BashString_data ex0 False suiteC) =
     tab @ ''echo 'cleanup suite c'' @ squote @ nl @ tab @ ''cd /repo/c'' @ nl
     @ tab @ ''rm c'' @ nl"
    unfolding c by simp
  from t have "SetupMain (BashString_data ex0 False suiteC) =
      concat (map (\<lambda>blk. bash_block False False blk @ exit_guard)
        (Run (BashString_prefixed ex0 suiteC)))"
    by blast
  then have sm: "SetupMain (BashString_data ex0 False suiteC) =
     tab @ ''echo 'setup suite c'' @ squote @ nl @ exit_guard
     @ tab @ ''cd /repo/c'' @ nl @ exit_guard
     @ tab @ ''touch c'' @ nl @ exit_guard"
    unfolding r by (simp add: bash_block_def)
  from t h have "\<not> sublist guard_text (CleanupMain (BashString_data ex0 False suiteC))
        \<and> \<not> sublist guard_text (CleanupDependencies (BashString_data ex0 False suiteC))"
    by blast
  then show ?thesis
    using cm sm by blast
qed

text \<open>
  C9 as stated fails: the command blocks are opaque, and for the suite whose cleanup
  commands are \<^verbatim>\<open>rm g\<close> and the text of the guard itself, the body of \<^verbatim>\<open>cleanup_main\<close>
  has the guard line after the line \<^verbatim>\<open>rm g\<close>.
\<close>

theorem cleanup_never_guarded_counterexample:
  "CleanupMain (BashString_data ex0 False suiteG) =
     tab @ ''echo 'cleanup suite g'' @ squote @ nl @ tab @ ''cd /repo/g'' @ nl
     @ tab @ ''rm g'' @ nl @ exit_guard"
  by (simp add: BashString_data_def Let_def Cleanup_BashString_prefixed Body_BashString_def
      bash_block_def suiteG_def ex0_def cleanup_marker_def cd_cmd_def exit_guard_def)

text \<open>
  C4.  \<^verbatim>\<open>BashString\<close> assigns the prefixed lists to \<^verbatim>\<open>s.Run\<close> and \<^verbatim>\<open>s.Cleanup\<close>
  through its pointer receiver.  For the suite \<open>suiteA\<close> the caller sees both lists
  grown after the call, a second call on the same suite renders another script than
  the first, and \<^verbatim>\<open>getDependenciesSetup\<close>, which builds the same prefix in a slice of
  its own, now lists the marker and the directory change twice for a suite that has
  been rendered; in both revisions of the file.
\<close>

theorem BashString_twice_differs:
  "fst (Suite_BashString ex0 False suiteA)
     \<noteq> fst (Suite_BashString ex0 False (snd (Suite_BashString ex0 False suiteA)))
   \<and> Run suiteA = [''touch a'']
   \<and> Run (snd (Suite_BashString ex0 False suiteA)) =
       [''echo 'setup suite a'' @ squote, ''cd /repo/a'', ''touch a'']
   \<and> Cleanup suiteA = [''rm a'']
   \<and> Cleanup (snd (Suite_BashString ex0 False suiteA)) =
       [''echo 'cleanup suite a'' @ squote, ''cd /repo/a'', ''rm a'']
   \<and> getDependenciesSetup ex0 suiteA =
       [''echo 'setup suite a'' @ squote, ''cd /repo/a'', ''touch a'']
   \<and> getDependenciesSetup ex0 (snd (Suite_BashString ex0 False suiteA)) =
       [''echo 'setup suite a'' @ squote, ''cd /repo/a'',
        ''echo 'setup suite a'' @ squote, ''cd /repo/a'', ''touch a'']
   \<and> fst (Suite_BashString_old ex0 suiteA)
     \<noteq> fst (Suite_BashString_old ex0 (snd (Suite_BashString_old ex0 suiteA)))
   \<and> Run (snd (Suite_BashString_old ex0 suiteA)) =
       [''echo 'setup suite a'' @ squote, ''cd /repo/a'', ''touch a'']
   \<and> Cleanup (snd (Suite_BashString_old ex0 suiteA)) =
       [''echo 'cleanup suite a'' @ squote, ''rm a'']"
  by (simp add: Suite_BashString_def BashString_data_def Let_def execute_bashSuiteTemplate_def
      Body_BashString_def bash_block_def BashString_prefixed_def
      Suite_BashString_old_def BashString_data_old_def execute_bashSuiteTemplate_old_def
      Body_BashString_old_def bash_block_old_def BashString_prefixed_old_def
      setupDependencies_def cleanupDependencies_def cleanupDependencies_old_def
      suiteA_def ex0_def setup_marker_def cleanup_marker_def cd_cmd_def exit_guard_def
      guard_text_def tab_def nl_def squote_def dquote_def)

text \<open>
  C10.  \<^verbatim>\<open>String\<close> on a suite without tests leaves the suite with one test, the zero
  \<^verbatim>\<open>Test\<close>, in \<^verbatim>\<open>Tests\<close> and every other field as it was, so the suite is not the one
  the caller passed; on a suite with tests it leaves the suite as it was.
\<close>

theorem String_appends_empty_test:
  "(Tests s = [] \<longrightarrow>
      snd (Suite_String ex s) = set_Tests [new_Test ex] s
      \<and> Tests (snd (Suite_String ex s)) = [new_Test ex]
      \<and> snd (Suite_String ex s) \<noteq> s)
   \<and> (Tests s \<noteq> [] \<longrightarrow> snd (Suite_String ex s) = s)"
proof -
  have "Tests (set_Tests [new_Test ex] s) \<noteq> Tests s" if "Tests s = []"
    using that by simp
  then have "set_Tests [new_Test ex] s \<noteq> s" if "Tests s = []"
    using that by metis
  then show ?thesis
    by (simp add: Suite_String_def Let_def)
qed

theorem String_appends_empty_test_witness:
  "Tests suiteA = [] \<and> Tests (snd (Suite_String ex0 suiteA)) = [()]
   \<and> snd (Suite_String ex0 suiteA) \<noteq> suiteA
   \<and> Tests suiteT \<noteq> [] \<and> snd (Suite_String ex0 suiteT) = suiteT"
  using String_appends_empty_test [of suiteA ex0] String_appends_empty_test [of suiteT ex0]
  by (simp add: suiteA_def suiteT_def ex0_def)



section \<open>Properties of the shell session\<close>

lemma TrimSpace_stop_ascii:
  "\<forall>c\<in>set xs. byte c < RuneSelf \<Longrightarrow> TrimSpace_stop xs = rev (dropWhile asciiSpace xs)"
  by (induction xs) auto

lemma TrimSpace_ascii:
  "\<forall>c\<in>set s. byte c < RuneSelf \<Longrightarrow>
   TrimSpace s = rev (dropWhile asciiSpace (rev (dropWhile asciiSpace s)))"
proof (induction s)
  case Nil
  then show ?case by simp
next
  case (Cons c cs)
  show ?case
  proof (cases "asciiSpace c")
    case True
    then show ?thesis using Cons by simp
  next
    case False
    have "\<forall>x\<in>set (rev (c # cs)). byte x < RuneSelf"
      using Cons.prems by simp
    then have "TrimSpace_stop (rev (c # cs)) = rev (dropWhile asciiSpace (rev (c # cs)))"
      by (rule TrimSpace_stop_ascii)
    then show ?thesis
      using False Cons.prems by simp
  qed
qed

lemma TrimSpace_replicate:
  assumes "byte c < RuneSelf" and "\<not> asciiSpace c"
  shows "TrimSpace (replicate n c) = replicate n c"
  using assms by (subst TrimSpace_ascii) simp_all

text \<open>A no-break space (\<^verbatim>\<open>U+00A0\<close>, the bytes \<^verbatim>\<open>C2 A0\<close>) is trimmed at either end.\<close>

lemma TrimSpace_no_break_space:
  "TrimSpace ([CHR 0xC2, CHR 0xA0] @ ''x'' @ nl @ ''OK'' @ [CHR 0xC2, CHR 0xA0] @ nl) =
     ''x'' @ nl @ ''OK''"
  by code_simp

lemma bufferSize_eq: "bufferSize = 65536"
  by (simp add: bufferSize_def)

lemma take_read_into:
  "k \<le> length buf \<Longrightarrow> take (k + length chunk) (read_into buf k chunk) = take k buf @ chunk"
  by (simp add: read_into_def)

lemma examined_eq:
  "cur st \<le> length (buffer st) \<Longrightarrow>
   examined st chunk = TrimSpace (take (cur st) (buffer st) @ chunk)"
  by (simp add: examined_def take_read_into)



lemma HasSuffix_append [simp]: "HasSuffix (xs @ suf) suf"
  by (simp add: HasSuffix_def)


lemma body_OK_line:
  assumes "examined st chunk = out @ nl @ ''OK''"
  shows "fst (stdoutHandler_body st chunk) = Some (ToOutCh out)"
proof -
  have "HasSuffix (examined st chunk) ''OK''"
    using assms HasSuffix_append [of "out @ nl" "''OK''"] by simp
  then show ?thesis
    using assms by (simp add: stdoutHandler_body_def Let_def nl_def)
qed

lemma body_OK_bare:
  assumes "examined st chunk = ''OK''" and "output_v st = []"
  shows "fst (stdoutHandler_body st chunk) = Some (ToOutCh [])"
  using assms by (simp add: stdoutHandler_body_def Let_def HasSuffix_def)

lemma body_output_v:
  "output_v st = [] \<Longrightarrow> output_v (snd (stdoutHandler_body st chunk)) = []"
  by (simp add: stdoutHandler_body_def Let_def)

lemma stdoutHandler_output_v:
  "output_v st = [] \<Longrightarrow> output_v (snd (stdoutHandler st ts)) = []"
proof (induction st ts rule: stdoutHandler.induct)
  case (4 st chunk ts)
  then show ?case
    using body_output_v [of st chunk]
    by (auto split: prod.splits)
qed simp_all

text \<open>A listener blocked in a send reads nothing.\<close>

lemma listen_blocked:
  "stdout_send b = Some m \<Longrightarrow> foldl listen b (map StdoutRead chunks) = b"
  by (induction chunks) simp_all

lemma listen_quiet:
  assumes "stdout_send b = None"
    and "fst (stdoutHandler (stdout_st b) (map ReadBytes pre)) = []"
  shows "foldl listen b (map StdoutRead pre) =
           b\<lparr> stdout_st := snd (stdoutHandler (stdout_st b) (map ReadBytes pre)) \<rparr>"
  using assms
proof (induction pre arbitrary: b)
  case Nil
  then show ?case by simp
next
  case (Cons c pre)
  obtain m st' where body: "stdoutHandler_body (stdout_st b) c = (m, st')"
    by (cases "stdoutHandler_body (stdout_st b) c")
  obtain ms st'' where rest: "stdoutHandler st' (map ReadBytes pre) = (ms, st'')"
    by (cases "stdoutHandler st' (map ReadBytes pre)")
  from Cons.prems(2) body rest have m: "m = None" and ms: "ms = []"
    by (auto split: option.splits)
  let ?b1 = "b\<lparr> stdout_send := None, stdout_st := st' \<rparr>"
  have step: "listen b (StdoutRead c) = ?b1"
    using Cons.prems(1) body m by simp
  have "foldl listen ?b1 (map StdoutRead pre) =
          ?b1\<lparr> stdout_st := snd (stdoutHandler (stdout_st ?b1) (map ReadBytes pre)) \<rparr>"
    by (rule Cons.IH) (simp_all add: rest ms)
  then show ?case
    using step body rest Cons.prems(1) m by simp
qed

lemma Bash_Run_live:
  assumes "once_Do_init w b = Inr b0" and "ctx_err b0 = None" and "\<not> stdin_closed b0"
  shows "Bash_Run w b s evs =
           Inr (select_Run (foldl listen
                  (b0\<lparr> stdin_bytes := stdin_bytes b0 @ s @ nl @ checkStatus @ nl \<rparr>) evs))"
  using assms by (simp add: Bash_Run_def stdin_Write_def)

lemma Run_results_live:
  assumes "once_Do_init w b = Inr b0" and "ctx_err b0 = None" and "\<not> stdin_closed b0"
  shows "Run_results w b s evs =
           Inr (map fst (select_Run (foldl listen
                  (b0\<lparr> stdin_bytes := stdin_bytes b0 @ s @ nl @ checkStatus @ nl \<rparr>) evs)))"
  using Bash_Run_live [OF assms] by (simp add: Run_results_def)

lemma listen_quiet_then_read:
  assumes "stdout_send b = None"
    and "fst (stdoutHandler (stdout_st b) (map ReadBytes pre)) = []"
    and "fst (stdoutHandler_body (snd (stdoutHandler (stdout_st b) (map ReadBytes pre))) chunk) = m"
  shows "stdout_send (foldl listen b (map StdoutRead (pre @ [chunk]))) = m"
    and "stderr_send (foldl listen b (map StdoutRead (pre @ [chunk]))) = stderr_send b"
    and "ctx_err (foldl listen b (map StdoutRead (pre @ [chunk]))) = ctx_err b"
  using assms listen_quiet [OF assms(1,2)]
  by (auto split: prod.splits)


text \<open>
  C1, as amended.  The session is started, not cancelled, and neither listener is
  blocked in a send left from an earlier command, and the variable \<^verbatim>\<open>output\<close> of the
  stdout listener is empty, as \<^verbatim>\<open>init\<close> and every send leave it; nothing arrives on
  standard error and the context is not cancelled while \<^verbatim>\<open>Run\<close> waits; the stdout
  listener reads the chunks \<open>pre\<close>, which complete no sentinel, and then a chunk after which the trimmed
  content of its buffer is \<open>out\<close>, a newline and \<^verbatim>\<open>OK\<close>, or \<^verbatim>\<open>OK\<close> alone (\<open>out\<close>
  empty).  Then \<^verbatim>\<open>Run\<close> returns \<open>out\<close> and a nil error, and nothing else.
\<close>

theorem Run_OK_sentinel:
  assumes "once_Do_init w b = Inr b0"
    and "ctx_err b0 = None" and "\<not> stdin_closed b0"
    and "stderr_send b0 = None" and "stdout_send b0 = None"
    and "output_v (stdout_st b0) = []"
    and "fst (stdoutHandler (stdout_st b0) (map ReadBytes pre)) = []"
    and "examined (snd (stdoutHandler (stdout_st b0) (map ReadBytes pre))) chunk = out @ nl @ ''OK''
         \<or> examined (snd (stdoutHandler (stdout_st b0) (map ReadBytes pre))) chunk = ''OK''
           \<and> out = []"
  shows "Run_results w b s (map StdoutRead (pre @ [chunk])) = Inr [(out, None)]"
proof -
  let ?b1 = "b0\<lparr> stdin_bytes := stdin_bytes b0 @ s @ nl @ checkStatus @ nl \<rparr>"
  let ?b2 = "foldl listen ?b1 (map StdoutRead (pre @ [chunk]))"
  let ?st = "snd (stdoutHandler (stdout_st b0) (map ReadBytes pre))"
  have "output_v ?st = []"
    using assms(6) by (rule stdoutHandler_output_v)
  then have "fst (stdoutHandler_body ?st chunk) = Some (ToOutCh out)"
    using assms(8) body_OK_line [of ?st chunk out] body_OK_bare [of ?st chunk] by auto
  then have "stdout_send ?b2 = Some (ToOutCh out)"
    "stderr_send ?b2 = None" "ctx_err ?b2 = None"
    using listen_quiet_then_read [of ?b1 pre chunk, OF _ _ refl] assms(2-5,7)
    by simp_all
  then have "map fst (select_Run ?b2) = [(out, None)]"
    by (simp add: select_Run_def)
  then show ?thesis
    using Run_results_live [OF assms(1-3)] by simp
qed

lemma once_Do_init_bash0: "once_Do_init os0 bash0 = Inr bash_started"
  by (simp add: once_Do_init_def init_def os0_def bash0_def bash_started_def)

lemma bash_started_fields [simp]:
  "ctx_err bash_started = None" "\<not> stdin_closed bash_started"
  "stderr_send bash_started = None" "stdout_send bash_started = None"
  "stdout_st bash_started = stdout_loop_init" "stdin_bytes bash_started = []"
  by (simp_all add: bash_started_def)

lemma stdout_loop_init_fields [simp]:
  "output_v stdout_loop_init = []" "cur stdout_loop_init = 0"
  "length (buffer stdout_loop_init) = bufferSize"
  by (simp_all add: stdout_loop_init_def)

lemma examined_init: "examined stdout_loop_init chunk = TrimSpace chunk"
  by (simp add: examined_def read_into_def)

text \<open>A first read that completes no sentinel and does not fill the buffer, and the
  content examined after the next read.\<close>

lemma body_init_quiet:
  assumes "\<not> HasSuffix (TrimSpace chunk) ''OK''" and "\<not> HasSuffix (TrimSpace chunk) ''FAILED''"
    and "length chunk < bufferSize"
  shows "stdoutHandler stdout_loop_init [ReadBytes chunk] =
           ([], \<lparr> output_v = [], buffer = read_into (buffer stdout_loop_init) 0 chunk,
                  cur = length chunk \<rparr>)"
  using assms by (simp add: stdoutHandler_body_def examined_init Let_def)

lemma examined_second:
  assumes "length c1 \<le> bufferSize"
  shows "examined \<lparr> output_v = v, buffer = read_into (buffer stdout_loop_init) 0 c1,
                    cur = length c1 \<rparr> c2 = TrimSpace (c1 @ c2)"
proof -
  have "take (length c1) (read_into (buffer stdout_loop_init) 0 c1) = c1"
    using take_read_into [of 0 "buffer stdout_loop_init" c1] by simp
  moreover have "length c1 \<le> length (read_into (buffer stdout_loop_init) 0 c1)"
    by (simp add: read_into_def)
  ultimately show ?thesis
    by (simp add: examined_eq)
qed

lemma hi_quiet:
  "stdoutHandler stdout_loop_init [ReadBytes (''hi'' @ nl)] =
     ([], \<lparr> output_v = [], buffer = read_into (buffer stdout_loop_init) 0 (''hi'' @ nl),
            cur = length (''hi'' @ nl) \<rparr>)"
  by (rule body_init_quiet)
    (simp_all add: byte_def RuneSelf_def asciiSpace_def nl_def HasSuffix_def bufferSize_eq)

lemma hi_then:
  "examined (snd (stdoutHandler stdout_loop_init [ReadBytes (''hi'' @ nl)])) c2 =
     TrimSpace ((''hi'' @ nl) @ c2)"
  by (simp only: hi_quiet snd_conv) (rule examined_second, simp add: bufferSize_eq nl_def)


theorem Run_OK_sentinel_witness:
  "Run_results os0 bash0 ''echo hi'' [StdoutRead (''hi'' @ nl), StdoutRead (''OK'' @ nl)] =
     Inr [(''hi'', None)]"
proof -
  have q: "fst (stdoutHandler (stdout_st bash_started) (map ReadBytes [''hi'' @ nl])) = []"
    by (simp only: bash_started_fields list.map hi_quiet fst_conv)
  have r: "examined (snd (stdoutHandler (stdout_st bash_started) (map ReadBytes [''hi'' @ nl])))
          (''OK'' @ nl) = ''hi'' @ nl @ ''OK''"
    by (simp only: bash_started_fields list.map hi_then)
      (simp add: nl_def byte_def RuneSelf_def asciiSpace_def)
  show ?thesis
    using Run_OK_sentinel [OF once_Do_init_bash0 _ _ _ _ _ q disjI1 [OF r], of "''echo hi''"]
    by simp
qed

text \<open>The results of \<^verbatim>\<open>Run\<close> on the fresh session when the stdout listener's first read
  is \<open>chunk\<close> and the stderr listener has read \<open>errs\<close> or nothing.\<close>

lemma select_after_first_read:
  assumes "stdout_send b = None" and "ctx_err b = None"
  shows "map fst (select_Run (listen b (StdoutRead chunk))) =
           (case stderr_send b of Some e \<Rightarrow> [([], Some e)] | None \<Rightarrow> [])
           @ (case fst (stdoutHandler_body (stdout_st b) chunk) of
                Some (ToErrCh e) \<Rightarrow> [([], Some e)]
              | Some (ToOutCh out) \<Rightarrow> [(out, None)]
              | None \<Rightarrow> [])"
  using assms
  by (auto simp: select_Run_def split: prod.splits option.splits send.splits)

lemma body_init_OK_line:
  "TrimSpace chunk = out @ nl @ ''OK'' \<Longrightarrow>
   fst (stdoutHandler_body stdout_loop_init chunk) = Some (ToOutCh out)"
  by (rule body_OK_line) (simp add: examined_init)

text \<open>
  C1 as stated fails: the command prints \<^verbatim>\<open>foo\<close>, writes a warning to standard error
  and exits with status 0, so the stdout listener sees the sentinel \<^verbatim>\<open>OK\<close>; both
  listeners are blocked in their sends when the \<^verbatim>\<open>select\<close> chooses, and \<^verbatim>\<open>Run\<close> can
  return the error made of the warning instead of \<^verbatim>\<open>foo\<close> and nil.
\<close>

theorem Run_OK_sentinel_counterexample:
  "Run_results os0 bash0 ''echo foo; echo warn >&2''
       [StderrRead (''warn'' @ nl), StdoutRead (''foo'' @ nl @ ''OK'' @ nl)] =
     Inr [([], Some (ErrorsNew (''warn'' @ nl))), (''foo'', None)]"
proof -
  have "TrimSpace (''foo'' @ nl @ ''OK'' @ nl) = ''foo'' @ nl @ ''OK''"
    by (simp add: byte_def RuneSelf_def asciiSpace_def nl_def)
  then have "fst (stdoutHandler_body stdout_loop_init (''foo'' @ nl @ ''OK'' @ nl))
               = Some (ToOutCh ''foo'')"
    by (rule body_init_OK_line)
  then show ?thesis
    using Run_results_live [OF once_Do_init_bash0, of "''echo foo; echo warn >&2''"
        "[StderrRead (''warn'' @ nl), StdoutRead (''foo'' @ nl @ ''OK'' @ nl)]"]
    by (simp add: select_after_first_read del: listen.simps(1))
qed

text \<open>
  Where the output of the command does not end with a newline, the three bytes cut
  off for \<^verbatim>\<open>"\nOK"\<close> include the last byte of the output.
\<close>

lemma Run_without_final_newline:
  "Run_results os0 bash0 ''printf foo'' [StdoutRead (''fooOK'' @ nl)] = Inr [(''fo'', None)]"
proof -
  have "fst (stdoutHandler_body stdout_loop_init (''fooOK'' @ nl)) = Some (ToOutCh ''fo'')"
    by (simp add: stdoutHandler_body_def examined_init Let_def byte_def RuneSelf_def asciiSpace_def nl_def
        HasSuffix_def)
  then show ?thesis
    using Run_results_live [OF once_Do_init_bash0, of "''printf foo''"
        "[StdoutRead (''fooOK'' @ nl)]"]
    by (simp add: select_after_first_read del: listen.simps(1))
qed

lemma listen_fold_stderr:
  "stderr_send (foldl listen b evs) =
     (case stderr_send b of
        Some e \<Rightarrow> Some e
      | None \<Rightarrow> (case stderr_reads evs of [] \<Rightarrow> None | c # _ \<Rightarrow> Some (ErrorsNew c)))"
proof (induction evs arbitrary: b)
  case Nil
  then show ?case by (simp split: option.splits)
next
  case (Cons ev evs)
  show ?case
    by (cases ev) (simp_all add: Cons.IH split: option.splits prod.splits list.splits)
qed

lemma listen_fold_ctx:
  "ctx_err (foldl listen b evs) = (if Cancel \<in> set evs then Some Canceled else ctx_err b)"
proof (induction evs arbitrary: b)
  case Nil
  then show ?case by simp
next
  case (Cons ev evs)
  show ?case
    by (cases ev) (simp_all add: Cons.IH split: option.splits prod.splits)
qed

text \<open>The send in which the stdout listener is blocked after the events is the first
  send that \<^verbatim>\<open>stdoutHandler\<close> makes on the chunks it is handed.\<close>

lemma listen_fold_stdout:
  "stdout_send (foldl listen b evs) =
     (case stdout_send b of
        Some m \<Rightarrow> Some m
      | None \<Rightarrow>
          (case fst (stdoutHandler (stdout_st b) (map ReadBytes (stdout_reads evs))) of
             [] \<Rightarrow> None
           | m # _ \<Rightarrow> Some m))"
proof (induction evs arbitrary: b)
  case Nil
  then show ?case by (simp split: option.splits)
next
  case (Cons ev evs)
  show ?case
  proof (cases ev)
    case (StdoutRead c)
    show ?thesis
    proof (cases "stdout_send b")
      case (Some m)
      then show ?thesis
        using StdoutRead Cons.IH [of b] by simp
    next
      case None
      obtain m st' where body: "stdoutHandler_body (stdout_st b) c = (m, st')"
        by (cases "stdoutHandler_body (stdout_st b) c")
      obtain ms st'' where rest:
        "stdoutHandler st' (map ReadBytes (stdout_reads evs)) = (ms, st'')"
        by (cases "stdoutHandler st' (map ReadBytes (stdout_reads evs))")
      have l: "listen b ev = b\<lparr> stdout_send := m, stdout_st := st' \<rparr>"
        using StdoutRead None body by simp
      show ?thesis
        using StdoutRead None body rest Cons.IH [of "b\<lparr> stdout_send := m, stdout_st := st' \<rparr>"]
        by (simp add: l split: option.splits)
    qed
  next
    case (StderrRead c)
    then show ?thesis
      using Cons.IH [of "listen b ev"] by (simp split: option.splits)
  next
    case Cancel
    then show ?thesis
      using Cons.IH [of "b\<lparr> ctx_err := Some Canceled \<rparr>"]
      by (simp split: option.splits)
  qed
qed

text \<open>
  C5, as amended.  The session is started, not cancelled, and neither listener is
  blocked in a send left from an earlier command; \<open>chunk\<close> is the first chunk that the
  stderr listener reads while \<^verbatim>\<open>Run\<close> waits.  The listener turns it into the error with
  exactly that text, and \<^verbatim>\<open>Run\<close> can return that error with the empty output, whatever
  else happens.  The only other results \<^verbatim>\<open>Run\<close> can return are that of the first
  sentinel the stdout listener completes meanwhile, if it completes one, and the
  cancellation error, if the context is cancelled meanwhile.
\<close>

theorem Run_stderr_chunk:
  assumes "once_Do_init w b = Inr b0"
    and "ctx_err b0 = None" and "\<not> stdin_closed b0"
    and "stderr_send b0 = None" and "stdout_send b0 = None"
    and "stderr_reads evs = chunk # later"
  shows "stderrHandler [ReadBytes chunk] = [ToErrCh (ErrorsNew chunk)]
       \<and> Run_results w b s evs =
           Inr ([([], Some (ErrorsNew chunk))]
                @ first_stdout_result
                    (fst (stdoutHandler (stdout_st b0) (map ReadBytes (stdout_reads evs))))
                @ (if Cancel \<in> set evs then [([], Some Canceled)] else []))"
proof -
  let ?b1 = "b0\<lparr> stdin_bytes := stdin_bytes b0 @ s @ nl @ checkStatus @ nl \<rparr>"
  let ?b2 = "foldl listen ?b1 evs"
  have "stderr_send ?b2 = Some (ErrorsNew chunk)"
    using assms(4,6) by (simp add: listen_fold_stderr)
  moreover have "stdout_send ?b2 =
      (case fst (stdoutHandler (stdout_st b0) (map ReadBytes (stdout_reads evs))) of
         [] \<Rightarrow> None | m # _ \<Rightarrow> Some m)"
    using assms(5) by (simp add: listen_fold_stdout)
  moreover have "ctx_err ?b2 = (if Cancel \<in> set evs then Some Canceled else None)"
    using assms(2) by (simp add: listen_fold_ctx)
  ultimately have "map fst (select_Run ?b2) =
      [([], Some (ErrorsNew chunk))]
      @ first_stdout_result
          (fst (stdoutHandler (stdout_st b0) (map ReadBytes (stdout_reads evs))))
      @ (if Cancel \<in> set evs then [([], Some Canceled)] else [])"
    by (simp add: select_Run_def first_stdout_result_def split: list.splits send.splits)
  then show ?thesis
    using Run_results_live [OF assms(1-3)] by simp
qed

theorem Run_stderr_chunk_witness:
  "Run_results os0 bash0 ''ls /nowhere'' [StdoutRead (''hi'' @ nl), StderrRead ''ls: cannot access''] =
     Inr [([], Some (ErrorsNew ''ls: cannot access''))]"
proof -
  have q: "fst (stdoutHandler (stdout_st bash_started) (map ReadBytes [''hi'' @ nl])) = []"
    by (simp only: bash_started_fields list.map hi_quiet fst_conv)
  show ?thesis
    using Run_stderr_chunk [OF once_Do_init_bash0, of
        "[StdoutRead (''hi'' @ nl), StderrRead ''ls: cannot access'']"
        "''ls: cannot access''" "[]" "''ls /nowhere''"] q
    by (simp add: first_stdout_result_def)
qed

text \<open>
  C5 as stated fails: the command writes a warning to standard error and exits with
  status 0; with both listeners blocked in their sends, \<^verbatim>\<open>Run\<close> can return the empty
  output and a nil error.
\<close>

theorem Run_stderr_chunk_counterexample:
  "Run_results os0 bash0 ''echo warn >&2''
       [StderrRead (''warn'' @ nl), StdoutRead (''OK'' @ nl)] =
     Inr [([], Some (ErrorsNew (''warn'' @ nl))), ([], None)]"
proof -
  have "examined stdout_loop_init (''OK'' @ nl) = ''OK''"
    by (simp add: examined_init byte_def RuneSelf_def asciiSpace_def nl_def)
  then have "fst (stdoutHandler_body stdout_loop_init (''OK'' @ nl)) = Some (ToOutCh [])"
    by (rule body_OK_bare) simp
  then show ?thesis
    using Run_results_live [OF once_Do_init_bash0, of "''echo warn >&2''"
        "[StderrRead (''warn'' @ nl), StdoutRead (''OK'' @ nl)]"]
    by (simp add: select_after_first_read del: listen.simps(1))
qed




lemma Close_done:
  assumes "Close w b = Inr b'"
  shows "once_done b'" and "ctx_err b' = Some Canceled"
proof -
  obtain b1 where b1: "once_Do_init w b = Inr b1"
    using assms by (auto simp: Close_def split: sum.splits)
  then have "once_done b1"
    by (auto simp: once_Do_init_def split: if_splits sum.splits)
  then show "once_done b'" and "ctx_err b' = Some Canceled"
    using assms b1 by (auto simp: Close_def Let_def stdin_Write_def split: if_splits)
qed

text \<open>
  C7.  On the session that \<^verbatim>\<open>Close\<close> has left, \<^verbatim>\<open>Run\<close> returns the empty output and
  \<^verbatim>\<open>context.Canceled\<close>, whatever the listeners do, and leaves the session as it was:
  nothing is written to the standard input of the process, and the next \<^verbatim>\<open>Run\<close> finds
  the same session.
\<close>

theorem Run_after_Close:
  assumes "Close w b = Inr b'"
  shows "Bash_Run w' b' s evs = Inr [(([], Some Canceled), b')]"
  using Close_done [OF assms] by (simp add: Bash_Run_def once_Do_init_def)

theorem Run_after_Close_witness:
  "Close os0 bash0 =
     Inr (bash_started\<lparr> ctx_err := Some Canceled, stdin_bytes := ''exit 0'' @ nl,
                        stdin_closed := True \<rparr>)
   \<and> Bash_Run os0
        (bash_started\<lparr> ctx_err := Some Canceled, stdin_bytes := ''exit 0'' @ nl,
                        stdin_closed := True \<rparr>)
        ''echo hi'' [StdoutRead (''hi'' @ nl @ ''OK'' @ nl)] =
     Inr [(([], Some Canceled),
           bash_started\<lparr> ctx_err := Some Canceled, stdin_bytes := ''exit 0'' @ nl,
                          stdin_closed := True \<rparr>)]"
proof -
  have c: "Close os0 bash0 =
     Inr (bash_started\<lparr> ctx_err := Some Canceled, stdin_bytes := ''exit 0'' @ nl,
                        stdin_closed := True \<rparr>)"
    by (simp add: Close_def once_Do_init_bash0 stdin_Write_def Let_def)
  show ?thesis
    using c Run_after_Close [OF c, of os0 "''echo hi''" "[StdoutRead (''hi'' @ nl @ ''OK'' @ nl)]"]
    by simp
qed

lemma length_read_into:
  "k + length chunk \<le> length buf \<Longrightarrow> length (read_into buf k chunk) = length buf"
  by (simp add: read_into_def)

lemma bufferSize_pos: "0 < bufferSize"
  by (simp add: bufferSize_eq)

lemma examined_cur0:
  assumes "cur st = 0" and "length nxt \<le> length (buffer st)"
  shows "examined st nxt = TrimSpace nxt"
  using assms by (simp add: examined_def read_into_def)

lemma body_overflow:
  assumes "loop_ok st" and "cur st + length chunk = bufferSize"
    and "\<not> HasSuffix (examined st chunk) ''OK''"
    and "\<not> HasSuffix (examined st chunk) ''FAILED''"
  shows "stdoutHandler_body st chunk =
           (None, \<lparr> output_v = [], buffer = read_into (buffer st) (cur st) chunk, cur = 0 \<rparr>)"
  using assms by (simp add: stdoutHandler_body_def Let_def loop_ok_def)

text \<open>
  C8.  The stdout listener is not blocked in a send, and it reads a chunk that fills
  its buffer (\<open>cur + n = bufferSize\<close>) while the trimmed content ends with neither
  sentinel.  Then the listener sends nothing, on neither channel, so the results that
  \<^verbatim>\<open>Run\<close> can return are what they were; \<open>cur\<close> is 0 again; the loop goes on with the
  reads that follow; and what it examines after the next read is that read alone: the
  bytes buffered so far are lost.
\<close>

theorem buffer_overflow_resets:
  assumes "stdout_send b = None" and "loop_ok (stdout_st b)"
    and "cur (stdout_st b) + length chunk = bufferSize"
    and "\<not> HasSuffix (examined (stdout_st b) chunk) ''OK''"
    and "\<not> HasSuffix (examined (stdout_st b) chunk) ''FAILED''"
  shows "stdout_send (listen b (StdoutRead chunk)) = None
       \<and> stderr_send (listen b (StdoutRead chunk)) = stderr_send b
       \<and> map fst (select_Run (listen b (StdoutRead chunk))) = map fst (select_Run b)
       \<and> cur (stdout_st (listen b (StdoutRead chunk))) = 0
       \<and> loop_ok (stdout_st (listen b (StdoutRead chunk)))
       \<and> (\<forall>nxt. length nxt \<le> bufferSize \<longrightarrow>
             examined (stdout_st (listen b (StdoutRead chunk))) nxt = TrimSpace nxt)
       \<and> (\<forall>ts. stdoutHandler (stdout_st b) (ReadBytes chunk # ts) =
                stdoutHandler (stdout_st (listen b (StdoutRead chunk))) ts)"
proof -
  let ?st' = "\<lparr> output_v = [], buffer = read_into (buffer (stdout_st b)) (cur (stdout_st b)) chunk,
               cur = 0 \<rparr>"
  have body: "stdoutHandler_body (stdout_st b) chunk = (None, ?st')"
    using assms(2-5) by (rule body_overflow)
  then have l: "listen b (StdoutRead chunk) = b\<lparr> stdout_send := None, stdout_st := ?st' \<rparr>"
    using assms(1) by simp
  have len: "length (buffer ?st') = bufferSize"
    using assms(2,3) by (simp add: length_read_into loop_ok_def)
  then have ok: "loop_ok ?st'"
    by (simp add: loop_ok_def bufferSize_pos)
  have disc: "examined ?st' nxt = TrimSpace nxt" if "length nxt \<le> bufferSize" for nxt
    using that len by (intro examined_cur0) simp_all
  have sel: "map fst (select_Run (b\<lparr> stdout_send := None, stdout_st := ?st' \<rparr>)) = map fst (select_Run b)"
    using assms(1) by (simp add: select_Run_def split: option.splits)
  show ?thesis
    unfolding l using ok disc sel body by simp
qed

lemma HasSuffix_replicate:
  assumes "HasSuffix (replicate n c) suf"
  shows "set suf \<subseteq> {c}"
proof -
  from assms have "drop (length (replicate n c) - length suf) (replicate n c) = suf"
    unfolding HasSuffix_def by blast
  then obtain k where "suf = replicate k c"
    by (metis drop_replicate)
  then show ?thesis by auto
qed

theorem buffer_overflow_resets_witness:
  "stdout_send (listen bash_started (StdoutRead (replicate bufferSize (CHR ''a'')))) = None
   \<and> map fst (select_Run (listen bash_started (StdoutRead (replicate bufferSize (CHR ''a''))))) = []
   \<and> cur (stdout_st (listen bash_started (StdoutRead (replicate bufferSize (CHR ''a''))))) = 0
   \<and> examined (stdout_st (listen bash_started (StdoutRead (replicate bufferSize (CHR ''a'')))))
        (''b'' @ nl @ ''OK'' @ nl) = ''b'' @ nl @ ''OK''
   \<and> fst (stdoutHandler stdout_loop_init
        [ReadBytes (replicate bufferSize (CHR ''a'')), ReadBytes (''b'' @ nl @ ''OK'' @ nl)]) =
      [ToOutCh ''b'']"
proof -
  let ?chunk = "replicate bufferSize (CHR ''a'')"
  have ex: "examined (stdout_st bash_started) ?chunk = ?chunk"
    by (simp add: examined_init TrimSpace_replicate byte_def RuneSelf_def asciiSpace_def)
  have h1: "stdout_send bash_started = None" by simp
  have h2: "loop_ok (stdout_st bash_started)"
    by (simp add: loop_ok_def bufferSize_pos)
  have h3: "cur (stdout_st bash_started) + length ?chunk = bufferSize" by simp
  have h4: "\<not> HasSuffix (examined (stdout_st bash_started) ?chunk) ''OK''"
    unfolding ex using HasSuffix_replicate [of bufferSize "CHR ''a''" "''OK''"] by auto
  have h5: "\<not> HasSuffix (examined (stdout_st bash_started) ?chunk) ''FAILED''"
    unfolding ex using HasSuffix_replicate [of bufferSize "CHR ''a''" "''FAILED''"] by auto
  note ovf = buffer_overflow_resets [OF h1 h2 h3 h4 h5]
  have t: "TrimSpace (''b'' @ nl @ ''OK'' @ nl) = ''b'' @ nl @ ''OK''"
    by (simp add: byte_def RuneSelf_def asciiSpace_def nl_def)
  have n: "length (''b'' @ nl @ ''OK'' @ nl) \<le> bufferSize"
    by (simp add: nl_def bufferSize_eq)
  have e2: "examined (stdout_st (listen bash_started (StdoutRead ?chunk))) (''b'' @ nl @ ''OK'' @ nl)
              = ''b'' @ nl @ ''OK''"
    using ovf n t by simp
  have "fst (stdoutHandler_body (stdout_st (listen bash_started (StdoutRead ?chunk)))
               (''b'' @ nl @ ''OK'' @ nl)) = Some (ToOutCh ''b'')"
    using e2 by (rule body_OK_line)
  moreover have "stdoutHandler stdout_loop_init [ReadBytes ?chunk, ReadBytes (''b'' @ nl @ ''OK'' @ nl)]
      = stdoutHandler (stdout_st (listen bash_started (StdoutRead ?chunk)))
          [ReadBytes (''b'' @ nl @ ''OK'' @ nl)]"
    using ovf by (simp del: stdoutHandler.simps listen.simps)
  ultimately have last: "fst (stdoutHandler stdout_loop_init
        [ReadBytes ?chunk, ReadBytes (''b'' @ nl @ ''OK'' @ nl)]) = [ToOutCh ''b'']"
    by (simp split: prod.splits del: listen.simps)
  have sel0: "map fst (select_Run bash_started) = []"
    by (simp add: select_Run_def)
  show ?thesis
    using ovf e2 last sel0 by (simp del: listen.simps stdoutHandler.simps)
qed

end
